theory Spec2Isabelle
  imports Main "HOL-Library.Word"
begin

section \<open>Configuration (internal/config/config.go)\<close>

text \<open>
  Go's \<open>int\<close> is a 64-bit machine integer on the platforms the gateway targets; it is
  modelled as a 64-bit word. Strings are byte strings.
\<close>

type_synonym go_int = "64 word"

text \<open>
  A value of Go's \<open>interface{}\<close> as \<open>encoding/json\<close> produces it. A number carries the
  bit pattern of its \<open>float64\<close>; no arithmetic is ever done on it here. \<open>IInt\<close> is a Go
  \<open>int\<close> placed in a request by the gateway itself.
\<close>

datatype iface =
    INil
  | IBool bool
  | INum "64 word"
  | IInt go_int
  | IStr string
  | IArr "iface list"
  | IMap "(string \<times> iface) list"

record ServerConfig =
  Server_Host :: string
  Server_Port :: go_int

record DockerConfig =
  Docker_Network :: string
  Docker_ImagePrefix :: string
  Docker_RestartPolicy :: string
  Docker_SocketPath :: string

record EnvVar =
  Env_Name :: string
  Env_Value :: string
  Env_ValueFrom :: string

record HealthCheckConfig =
  Health_Enabled :: bool
  Health_Interval :: string
  Health_URL :: string

record MCPTool =
  Tool_Name :: string
  Tool_Description :: string
  Tool_InputSchema :: iface
  Tool_Example :: iface

record MCPService =
  Svc_Name :: string
  Svc_DisplayName :: string
  Svc_Description :: string
  Svc_Image :: string
  Svc_Command :: string
  Svc_Args :: "string list"
  Svc_Env :: "EnvVar list"
  Svc_Port :: go_int
  Svc_Enabled :: bool
  Svc_Status :: string
  Svc_Tools :: "MCPTool list"
  Svc_HealthCheck :: HealthCheckConfig

record MCPConfig =
  MCP_Enabled :: "MCPService list"

record WebConfig =
  Web_Enable :: bool
  Web_Port :: go_int
  Web_Title :: string

record Config =
  Server :: ServerConfig
  Docker :: DockerConfig
  MCP :: MCPConfig
  Web :: WebConfig
  EnvFiles :: "string list"

text \<open>
  Errors are values. \<open>LibError\<close> is an error handed back by a library or by the operating
  system (its text is opaque here); \<open>Wrapped\<close> is \<open>fmt.Errorf("...: %w", err)\<close>.
\<close>

datatype error =
    LibError string
  | Wrapped string error
  | ConfigMissing string
  | NotRunning string
  | NotFound string
  | NoLogs string
  | MCPError iface
  | EOF
  | IndexOutOfRange
  | NilPointer

text \<open>
  The process environment: an association list of bindings, looked up first match first.
  \<open>os.Getenv\<close> yields the empty string for an unset variable.
\<close>

type_synonym environ = "(string \<times> string) list"

definition Getenv :: "environ \<Rightarrow> string \<Rightarrow> string" where
  "Getenv env k = (case map_of env k of None \<Rightarrow> [] | Some v \<Rightarrow> v)"

definition Environ :: "environ \<Rightarrow> string list" where
  "Environ env = map (\<lambda>(k, v). k @ ''='' @ v) env"

text \<open>
  \<open>Load\<close>, lines 75 to 119. The two viper stages (\<open>ReadInConfig\<close>, \<open>Unmarshal\<close>) are
  library calls: their outcomes are the arguments \<open>read\<close> and \<open>parsed\<close>. The effect of one
  env file on the process environment (\<open>loadEnvFile\<close>, which only calls \<open>os.Setenv\<close>) is
  the argument \<open>loadEnvFile\<close>; a failure there is printed as a warning and the loop goes on.
\<close>

definition set_defaults :: "Config \<Rightarrow> Config" where
  "set_defaults config0 =
     (let config1 = (if Server_Port (Server config0) = 0
                     then config0\<lparr>Server := (Server config0)\<lparr>Server_Port := 8080\<rparr>\<rparr>
                     else config0);
          config2 = (if Web_Port (Web config1) = 0
                     then config1\<lparr>Web := (Web config1)\<lparr>Web_Port := 8081\<rparr>\<rparr>
                     else config1);
          config3 = (if Docker_Network (Docker config2) = []
                     then config2\<lparr>Docker := (Docker config2)\<lparr>Docker_Network := ''clawmcp-network''\<rparr>\<rparr>
                     else config2);
          config4 = (if Docker_SocketPath (Docker config3) = []
                     then config3\<lparr>Docker := (Docker config3)\<lparr>Docker_SocketPath := ''/var/run/docker.sock''\<rparr>\<rparr>
                     else config3)
      in config4)"

fun load_env_files ::
  "(string \<Rightarrow> environ \<Rightarrow> error option \<times> environ) \<Rightarrow> string list \<Rightarrow> environ \<Rightarrow> environ" where
  "load_env_files loadEnvFile [] env = env"
| "load_env_files loadEnvFile (envFile # rest) env =
     load_env_files loadEnvFile rest (snd (loadEnvFile envFile env))"

definition Load ::
  "(string \<Rightarrow> environ \<Rightarrow> error option \<times> environ) \<Rightarrow> error option \<Rightarrow> error + Config \<Rightarrow>
   environ \<Rightarrow> (error + Config) \<times> environ" where
  "Load loadEnvFile read parsed env =
     (case read of
        Some err \<Rightarrow> (Inl (Wrapped ''failed to read config'' err), env)
      | None \<Rightarrow>
         (case parsed of
            Inl err \<Rightarrow> (Inl (Wrapped ''failed to unmarshal config'' err), env)
          | Inr config0 \<Rightarrow>
             (let config = set_defaults config0
              in (Inr config, load_env_files loadEnvFile (EnvFiles config) env))))"

section \<open>Child processes, pipes and the container engine\<close>

text \<open>
  A call that waits for the outside world either returns or stays blocked: the child
  never writes, never closes, never exits. Nothing in the modelled state changes by
  itself, so a call that finds nothing to read is \<open>Blocks\<close>.
\<close>

datatype 'a outcome = Returns 'a | Blocks

text \<open>
  The write end of the child's standard input: the byte strings written so far, one per
  \<open>Write\<close> call and oldest first, whether the gateway has closed it, and whether the
  child's end is gone.
\<close>

record pipe_in =
  written :: "string list"
  closed :: bool
  broken :: bool

text \<open>
  The read end of the child's standard output or standard error: the bytes the child has
  written that nobody has read yet, and whether the child has closed its end.
\<close>

record pipe_out =
  avail :: string
  eof :: bool

definition new_pipe_in :: pipe_in where
  "new_pipe_in = \<lparr>written = [], closed = False, broken = False\<rparr>"

definition new_pipe_out :: pipe_out where
  "new_pipe_out = \<lparr>avail = [], eof = False\<rparr>"

definition Write :: "pipe_in \<Rightarrow> string \<Rightarrow> error option \<times> pipe_in" where
  "Write w data =
     (if closed w then (Some (LibError ''file already closed''), w)
      else if broken w then (Some (LibError ''broken pipe''), w)
      else (None, w\<lparr>written := written w @ [data]\<rparr>))"

text \<open>
  \<open>Read(buf)\<close> with \<open>len(buf) = n\<close> on a pipe: whatever is there, at most \<open>n\<close> bytes;
  \<open>(0, io.EOF)\<close> once the pipe is empty and closed; otherwise it waits.
\<close>

definition Read :: "nat \<Rightarrow> pipe_out \<Rightarrow> ((string \<times> error option) \<times> pipe_out) outcome" where
  "Read n r =
     (if avail r \<noteq> [] then Returns ((take n (avail r), None), r\<lparr>avail := drop n (avail r)\<rparr>)
      else if eof r then Returns (([], Some EOF), r)
      else Blocks)"

text \<open>
  \<open>exec.Cmd\<close> together with the child it started: the argument vector, the environment
  handed over, the session flag, whether the child has exited, and whether the program
  exits once its standard input is closed (a property of the program that was started).
\<close>

record Cmd =
  Cmd_Args :: "string list"
  Cmd_Env :: "string list"
  Cmd_Setsid :: bool
  exited :: bool
  exits_on_close :: bool

record ProcessInfo =
  Proc_Name :: string
  Proc_Cmd :: Cmd
  Stdin :: pipe_in
  Stdout :: pipe_out
  Stderr :: pipe_out
  ID :: go_int

record ContainerInfo =
  CI_Name :: string
  CI_ID :: string
  CI_Status :: string
  CI_Port :: go_int
  CI_StartedAt :: nat

text \<open>
  The container engine behind the Docker client, as far as the gateway talks to it: the
  containers it knows, and whether it answers at all.
\<close>

record Port =
  PrivatePort :: "16 word"
  PublicPort :: "16 word"

record container =
  Ctr_ID :: string
  Ctr_Names :: "string list"
  Ctr_Image :: string
  Ctr_Cmd :: "string list"
  Ctr_Env :: "string list"
  Ctr_Labels :: "(string \<times> string) list"
  Ctr_State :: string
  Ctr_Ports :: "Port list"
  Ctr_Logs :: string

record engine =
  E_containers :: "container list"
  E_down :: bool

definition ContainerList :: "bool \<Rightarrow> engine \<Rightarrow> error + container list" where
  "ContainerList all e =
     (if E_down e then Inl (LibError ''cannot connect to the Docker daemon'')
      else Inr (if all then E_containers e
                else filter (\<lambda>c. Ctr_State c = ''running'') (E_containers e)))"

definition ContainerStart :: "string \<Rightarrow> engine \<Rightarrow> error option \<times> engine" where
  "ContainerStart cid e =
     (if E_down e then (Some (LibError ''cannot connect to the Docker daemon''), e)
      else if cid \<in> set (map Ctr_ID (E_containers e))
      then (None, e\<lparr>E_containers :=
              map (\<lambda>c. if Ctr_ID c = cid then c\<lparr>Ctr_State := ''running''\<rparr> else c) (E_containers e)\<rparr>)
      else (Some (LibError ''no such container''), e))"

definition ContainerStop :: "string \<Rightarrow> engine \<Rightarrow> error option \<times> engine" where
  "ContainerStop cid e =
     (if E_down e then (Some (LibError ''cannot connect to the Docker daemon''), e)
      else if cid \<in> set (map Ctr_ID (E_containers e))
      then (None, e\<lparr>E_containers :=
              map (\<lambda>c. if Ctr_ID c = cid \<and> Ctr_State c = ''running''
                        then c\<lparr>Ctr_State := ''exited''\<rparr> else c) (E_containers e)\<rparr>)
      else (Some (LibError ''no such container''), e))"

definition ContainerRemove :: "string \<Rightarrow> engine \<Rightarrow> error option \<times> engine" where
  "ContainerRemove cid e =
     (if E_down e then (Some (LibError ''cannot connect to the Docker daemon''), e)
      else (case find (\<lambda>c. Ctr_ID c = cid) (E_containers e) of
              None \<Rightarrow> (Some (LibError ''no such container''), e)
            | Some c \<Rightarrow>
               if Ctr_State c = ''running''
               then (Some (LibError ''cannot remove a running container''), e)
               else (None, e\<lparr>E_containers := filter (\<lambda>c. Ctr_ID c \<noteq> cid) (E_containers e)\<rparr>)))"

text \<open>
  \<open>ContainerCreate\<close> with the image, command, environment and labels of the request and
  the container's name; the engine refuses a name that is taken. The new container's
  identifier is derived from its name, which is unique.
\<close>

definition ContainerCreate ::
  "string \<Rightarrow> string list \<Rightarrow> string list \<Rightarrow> (string \<times> string) list \<Rightarrow> string \<Rightarrow> engine \<Rightarrow>
   (error + string) \<times> engine" where
  "ContainerCreate img cmd env labels name e =
     (if E_down e then (Inl (LibError ''cannot connect to the Docker daemon''), e)
      else if (''/'' @ name) \<in> set (concat (map Ctr_Names (E_containers e)))
           \<or> (''id-'' @ name) \<in> set (map Ctr_ID (E_containers e))
      then (Inl (LibError ''container name already in use''), e)
      else (Inr (''id-'' @ name),
            e\<lparr>E_containers := E_containers e @
               [\<lparr>Ctr_ID = ''id-'' @ name, Ctr_Names = [''/'' @ name], Ctr_Image = img,
                 Ctr_Cmd = cmd, Ctr_Env = env, Ctr_Labels = labels, Ctr_State = ''created'',
                 Ctr_Ports = [], Ctr_Logs = []\<rparr>]\<rparr>))"

text \<open>
  The loop \<open>for _, c := range containers { if c.Names[0] == "/"+containerName { ... } }\<close>:
  the first container whose first name matches. Indexing an empty name list panics.
\<close>

fun find_container :: "string \<Rightarrow> container list \<Rightarrow> error + container option" where
  "find_container containerName [] = Inr None"
| "find_container containerName (c # cs) =
     (case Ctr_Names c of
        [] \<Rightarrow> Inl IndexOutOfRange
      | n0 # _ \<Rightarrow> if n0 = ''/'' @ containerName then Inr (Some c)
                  else find_container containerName cs)"

section \<open>The service manager (package docker)\<close>

text \<open>
  What the manager takes from outside the repository: the gateway's own environment, the
  outcome of creating the three pipes and of \<open>cmd.Start()\<close> for an argument vector, how
  the started program reacts to the end of its input, \<open>strings.Fields\<close>, and
  \<open>json.Marshal\<close> and \<open>json.Unmarshal\<close> (into a \<open>map[string]interface{}\<close>, given by its
  bindings), and the text the engine hands out as the last 100 log lines of a container.
\<close>

record externals =
  os_env :: environ
  StdinPipe_err :: "error option"
  StdoutPipe_err :: "error option"
  StderrPipe_err :: "error option"
  cmd_Start :: "string list \<Rightarrow> error option"
  child_exits_on_close :: "string list \<Rightarrow> bool"
  strings_Fields :: "string \<Rightarrow> string list"
  json_Marshal :: "iface \<Rightarrow> error + string"
  json_Unmarshal :: "string \<Rightarrow> error + (string \<times> iface) list"
  ContainerLogs :: "container \<Rightarrow> error + string"

record Manager =
  client :: "engine option"
  config :: Config
  containers :: "string \<rightharpoonup> ContainerInfo"
  running :: "string \<rightharpoonup> ProcessInfo"

definition NewManager :: "engine option \<Rightarrow> Config \<Rightarrow> Manager" where
  "NewManager dockerClient cfg =
     \<lparr>client = dockerClient, config = cfg, containers = Map.empty, running = Map.empty\<rparr>"

text \<open>\<open>strings.HasPrefix(s, "env:")\<close> and \<open>strings.TrimPrefix(s, "env:")\<close>.\<close>

definition HasPrefix :: "string \<Rightarrow> string \<Rightarrow> bool" where
  "HasPrefix s pre = (take (length pre) s = pre)"

definition TrimPrefix :: "string \<Rightarrow> string \<Rightarrow> string" where
  "TrimPrefix s pre = (if HasPrefix s pre then drop (length pre) s else s)"

text \<open>
  The three loops over \<open>svc.Env\<close>. \<open>StartService\<close>, lines 98 to 110, builds the
  environment of a local process on top of the gateway's own; lines 128 to 138 build the
  arguments of the \<open>docker run\<close> fallback; \<open>startDockerContainer\<close>, lines 204 to 211,
  builds the environment of a container.
\<close>

definition process_env_step :: "environ \<Rightarrow> string list \<Rightarrow> EnvVar \<Rightarrow> string list" where
  "process_env_step osenv env e =
     (let value0 = Env_Value e;
          value = (if value0 = [] \<and> Env_ValueFrom e \<noteq> []
                   then (if HasPrefix (Env_ValueFrom e) ''env:''
                         then Getenv osenv (TrimPrefix (Env_ValueFrom e) ''env:'')
                         else value0)
                   else value0)
      in if value \<noteq> [] then env @ [Env_Name e @ ''='' @ value] else env)"

definition process_env :: "environ \<Rightarrow> EnvVar list \<Rightarrow> string list" where
  "process_env osenv es = foldl (process_env_step osenv) (Environ osenv) es"

definition docker_run_step :: "environ \<Rightarrow> string list \<Rightarrow> EnvVar \<Rightarrow> string list" where
  "docker_run_step osenv args e =
     (let value0 = Env_Value e;
          value = (if Env_ValueFrom e \<noteq> [] \<and> HasPrefix (Env_ValueFrom e) ''env:''
                   then Getenv osenv (TrimPrefix (Env_ValueFrom e) ''env:'')
                   else value0)
      in if value \<noteq> [] then args @ [''-e'', Env_Name e @ ''='' @ value] else args)"

definition docker_run_args :: "environ \<Rightarrow> MCPService \<Rightarrow> string list" where
  "docker_run_args osenv svc =
     foldl (docker_run_step osenv) [''run'', ''--rm'', ''-i''] (Svc_Env svc) @ [Svc_Image svc]"

definition container_env_step :: "environ \<Rightarrow> string list \<Rightarrow> EnvVar \<Rightarrow> string list" where
  "container_env_step osenv env e =
     (let value0 = Env_Value e;
          value = (if Env_ValueFrom e \<noteq> [] \<and> HasPrefix (Env_ValueFrom e) ''env:''
                   then Getenv osenv (TrimPrefix (Env_ValueFrom e) ''env:'')
                   else value0)
      in env @ [Env_Name e @ ''='' @ value])"

definition container_env :: "environ \<Rightarrow> EnvVar list \<Rightarrow> string list" where
  "container_env osenv es = foldl (container_env_step osenv) [] es"

text \<open>
  \<open>StartService\<close>, lines 142 to 177: the command gets its environment and its own
  session, the three pipes are made, the child is started and registered with
  request counter 1.
\<close>

definition start_process ::
  "externals \<Rightarrow> string \<Rightarrow> string list \<Rightarrow> string list \<Rightarrow> Manager \<Rightarrow> error option \<times> Manager" where
  "start_process X svcName argv env m =
     (case StdinPipe_err X of
        Some err \<Rightarrow> (Some (Wrapped ''failed to create stdin pipe'' err), m)
      | None \<Rightarrow>
     (case StdoutPipe_err X of
        Some err \<Rightarrow> (Some (Wrapped ''failed to create stdout pipe'' err), m)
      | None \<Rightarrow>
     (case StderrPipe_err X of
        Some err \<Rightarrow> (Some (Wrapped ''failed to create stderr pipe'' err), m)
      | None \<Rightarrow>
     (case cmd_Start X argv of
        Some err \<Rightarrow> (Some (Wrapped ''failed to start process'' err), m)
      | None \<Rightarrow>
         (None, m\<lparr>running := (running m)(svcName \<mapsto>
            \<lparr>Proc_Name = svcName,
             Proc_Cmd = \<lparr>Cmd_Args = argv, Cmd_Env = env, Cmd_Setsid = True, exited = False,
                         exits_on_close = child_exits_on_close X argv\<rparr>,
             Stdin = new_pipe_in, Stdout = new_pipe_out, Stderr = new_pipe_out,
             ID = 1\<rparr>)\<rparr>)))))"

text \<open>\<open>startDockerContainer\<close>, lines 185 to 235, on the engine behind the client.\<close>

definition startDockerContainer ::
  "externals \<Rightarrow> string \<Rightarrow> MCPService \<Rightarrow> engine \<Rightarrow> error option \<times> engine" where
  "startDockerContainer X svcName svc e =
     (let containerName = ''clawmcp-'' @ svcName in
      case ContainerList True e of
        Inl err \<Rightarrow> (Some err, e)
      | Inr cs \<Rightarrow>
         (case find_container containerName cs of
            Inl panic \<Rightarrow> (Some panic, e)
          | Inr (Some c) \<Rightarrow>
             if Ctr_State c = ''running'' then (None, e) else ContainerStart (Ctr_ID c) e
          | Inr None \<Rightarrow>
             (let env = container_env (os_env X) (Svc_Env svc);
                  cmd = (if Svc_Command svc \<noteq> [] then [Svc_Command svc] else []) @ Svc_Args svc
              in case ContainerCreate (Svc_Image svc) cmd env
                        [(''clawmcp'', ''true''), (''service'', svcName)] containerName e of
                   (Inl err, e') \<Rightarrow> (Some (Wrapped ''failed to create container'' err), e')
                 | (Inr cid, e') \<Rightarrow> ContainerStart cid e')))"

text \<open>
  \<open>StartService\<close>, lines 73 to 183. The goroutine it launches last is \<open>initAndServe\<close>
  below; it runs after \<open>StartService\<close> has returned.
\<close>

definition StartService :: "externals \<Rightarrow> string \<Rightarrow> Manager \<Rightarrow> error option \<times> Manager" where
  "StartService X svcName m =
     (case find (\<lambda>s. Svc_Name s = svcName) (MCP_Enabled (MCP (config m))) of
        None \<Rightarrow> (Some (ConfigMissing svcName), m)
      | Some svc \<Rightarrow>
         (case running m svcName of
            Some p \<Rightarrow> (None, m)
          | None \<Rightarrow>
             (let env = process_env (os_env X) (Svc_Env svc) in
              if Svc_Command svc \<noteq> []
              then start_process X svcName (Svc_Command svc # Svc_Args svc) env m
              else if HasPrefix (Svc_Image svc) ''uvx ''
              then (case strings_Fields X (Svc_Image svc) of
                      [] \<Rightarrow> (Some IndexOutOfRange, m)
                    | part0 # parts \<Rightarrow> start_process X svcName (part0 # parts) env m)
              else (case client m of
                      Some e \<Rightarrow>
                        (case startDockerContainer X svcName svc e of
                           (err, e') \<Rightarrow> (err, m\<lparr>client := Some e'\<rparr>))
                    | None \<Rightarrow>
                        start_process X svcName
                          (''docker'' # docker_run_args (os_env X) svc) env m))))"

text \<open>
  \<open>initAndServe\<close>, lines 237 to 278: the initialize request with the literal id 1 and the
  initialized notification, each marshalled (an error leaves the data empty) and written
  with a newline appended; the results of the writes are ignored, the flushes after them
  change nothing on a pipe, and nothing is read.
  The HTTP server it then starts serves \<open>handleToolsList\<close> and \<open>handleToolCall\<close>.
\<close>

definition initReq :: iface where
  "initReq =
     IMap [(''jsonrpc'', IStr ''2.0''),
           (''method'', IStr ''initialize''),
           (''params'', IMap [(''protocolVersion'', IStr ''2024-11-05''),
                              (''capabilities'', IMap []),
                              (''clientInfo'', IMap [(''name'', IStr ''clawmcp-gateway''),
                                                     (''version'', IStr ''1.0.0'')])]),
           (''id'', IInt 1)]"

definition notifReq :: iface where
  "notifReq = IMap [(''jsonrpc'', IStr ''2.0''), (''method'', IStr ''notifications/initialized'')]"

definition marshal_data :: "externals \<Rightarrow> iface \<Rightarrow> string" where
  "marshal_data X v = (case json_Marshal X v of Inl err \<Rightarrow> [] | Inr data \<Rightarrow> data)"

definition initAndServe :: "externals \<Rightarrow> string \<Rightarrow> Manager \<Rightarrow> Manager" where
  "initAndServe X svcName m =
     (case running m svcName of
        None \<Rightarrow> m
      | Some p \<Rightarrow>
         (let w1 = snd (Write (Stdin p) (marshal_data X initReq @ ''\<newline>''));
              w2 = snd (Write w1 (marshal_data X notifReq @ ''\<newline>''))
          in m\<lparr>running := (running m)(svcName \<mapsto> p\<lparr>Stdin := w2\<rparr>)\<rparr>))"

text \<open>
  The two HTTP handlers of the per-service server, lines 303 to 369: status code and body.
  Each takes the counter as the request's id, increments it, writes the request and
  answers with the bytes of one \<open>Read\<close>, undecoded. For a service that is not
  registered \<open>http.Error\<close> answers 500 with the message and a newline.
\<close>

definition toolsListReq :: "go_int \<Rightarrow> iface" where
  "toolsListReq rid =
     IMap [(''jsonrpc'', IStr ''2.0''), (''method'', IStr ''tools/list''), (''id'', IInt rid)]"

definition toolsCallReq :: "string \<Rightarrow> iface \<Rightarrow> go_int \<Rightarrow> iface" where
  "toolsCallReq toolName args rid =
     IMap [(''jsonrpc'', IStr ''2.0''),
           (''method'', IStr ''tools/call''),
           (''params'', IMap [(''name'', IStr toolName), (''arguments'', args)]),
           (''id'', IInt rid)]"

definition handle_raw ::
  "externals \<Rightarrow> nat \<Rightarrow> iface \<Rightarrow> string \<Rightarrow> ProcessInfo \<Rightarrow> Manager \<Rightarrow> (nat \<times> string) outcome \<times> Manager" where
  "handle_raw X n req svcName p m =
     (let p1 = p\<lparr>ID := ID p + 1\<rparr>;
          p2 = p1\<lparr>Stdin := snd (Write (Stdin p1) (marshal_data X req @ ''\<newline>''))\<rparr>
      in case Read n (Stdout p2) of
           Blocks \<Rightarrow> (Blocks, m\<lparr>running := (running m)(svcName \<mapsto> p2)\<rparr>)
         | Returns ((buf, err), r) \<Rightarrow>
             (Returns (200, buf), m\<lparr>running := (running m)(svcName \<mapsto> p2\<lparr>Stdout := r\<rparr>)\<rparr>))"

definition handleToolsList :: "externals \<Rightarrow> string \<Rightarrow> Manager \<Rightarrow> (nat \<times> string) outcome \<times> Manager" where
  "handleToolsList X svcName m =
     (case running m svcName of
        None \<Rightarrow> (Returns (500, ''service not running\<newline>''), m)
      | Some p \<Rightarrow> handle_raw X 8192 (toolsListReq (ID p)) svcName p m)"

definition handleToolCall ::
  "externals \<Rightarrow> string \<Rightarrow> string \<Rightarrow> iface \<Rightarrow> Manager \<Rightarrow> (nat \<times> string) outcome \<times> Manager" where
  "handleToolCall X svcName tool arguments m =
     (case running m svcName of
        None \<Rightarrow> (Returns (500, ''service not running\<newline>''), m)
      | Some p \<Rightarrow> handle_raw X 32768 (toolsCallReq tool arguments (ID p)) svcName p m)"

text \<open>
  \<open>StopService\<close>, lines 371 to 398. For a registered process it closes the child's
  input and waits for the child to exit, which returns only if the child has exited or
  exits on the end of its input; then the entry is deleted. Otherwise it looks for a
  running container of that name.
\<close>

definition StopService :: "string \<Rightarrow> Manager \<Rightarrow> (error option) outcome \<times> Manager" where
  "StopService svcName m =
     (case running m svcName of
        Some p \<Rightarrow>
          (let p1 = p\<lparr>Stdin := (Stdin p)\<lparr>closed := True\<rparr>\<rparr> in
           if exited (Proc_Cmd p1) \<or> exits_on_close (Proc_Cmd p1)
           then (Returns None, m\<lparr>running := (running m)(svcName := None)\<rparr>)
           else (Blocks, m\<lparr>running := (running m)(svcName \<mapsto> p1)\<rparr>))
      | None \<Rightarrow>
          (case client m of
             None \<Rightarrow> (Returns (Some (NotFound svcName)), m)
           | Some e \<Rightarrow>
              (case ContainerList False e of
                 Inl err \<Rightarrow> (Returns (Some err), m)
               | Inr cs \<Rightarrow>
                  (case find_container (''clawmcp-'' @ svcName) cs of
                     Inl panic \<Rightarrow> (Returns (Some panic), m)
                   | Inr (Some c) \<Rightarrow>
                      (case ContainerStop (Ctr_ID c) e of
                         (err, e') \<Rightarrow> (Returns err, m\<lparr>client := Some e'\<rparr>))
                   | Inr None \<Rightarrow> (Returns (Some (NotFound svcName)), m)))))"

text \<open>
  \<open>RemoveService\<close>, lines 400 to 424: stop (an error it returns is dropped), remove
  the container if there is one, and forget the name in the container table.
  \<open>IndexOutOfRange\<close> is never a returned error, only the panic of \<open>c.Names[0]\<close>; a
  panic inside \<open>StopService\<close> unwinds through \<open>RemoveService\<close> as well.
\<close>

definition RemoveService :: "string \<Rightarrow> Manager \<Rightarrow> (error option) outcome \<times> Manager" where
  "RemoveService svcName m =
     (case StopService svcName m of
        (Blocks, m1) \<Rightarrow> (Blocks, m1)
      | (Returns stopped, m1) \<Rightarrow>
         if stopped = Some IndexOutOfRange then (Returns (Some IndexOutOfRange), m1)
         else
         (let forget = m1\<lparr>containers := (containers m1)(svcName := None)\<rparr> in
          case client m1 of
            None \<Rightarrow> (Returns None, forget)
          | Some e \<Rightarrow>
             (case ContainerList True e of
                Inl err \<Rightarrow> (Returns (Some err), m1)
              | Inr cs \<Rightarrow>
                 (case find_container (''clawmcp-'' @ svcName) cs of
                    Inl panic \<Rightarrow> (Returns (Some panic), m1)
                  | Inr None \<Rightarrow> (Returns None, forget)
                  | Inr (Some c) \<Rightarrow>
                     (let e1 = (if Ctr_State c = ''running'' then snd (ContainerStop (Ctr_ID c) e)
                                else e)
                      in case ContainerRemove (Ctr_ID c) e1 of
                           (err, e2) \<Rightarrow> (Returns err, m1\<lparr>client := Some e2\<rparr>))))))"

text \<open>
  \<open>GetServices\<close>, lines 426 to 464. The first loop writes the status through a pointer
  into the configuration's own service entry and appends a copy of the entry to the
  result. The second pass, only with a Docker client whose listing succeeds, overwrites
  the copies: the status with the container's state, the port with the container's first
  public port.
\<close>

definition process_status :: "(string \<rightharpoonup> ProcessInfo) \<Rightarrow> MCPService \<Rightarrow> MCPService" where
  "process_status run svc =
     (case run (Svc_Name svc) of
        Some p \<Rightarrow> svc\<lparr>Svc_Status := ''running''\<rparr>
      | None \<Rightarrow> svc\<lparr>Svc_Status := ''stopped''\<rparr>)"

definition container_status :: "container \<Rightarrow> MCPService \<Rightarrow> MCPService" where
  "container_status c svc =
     (let svc1 = svc\<lparr>Svc_Status := Ctr_State c\<rparr> in
      case Ctr_Ports c of
        [] \<Rightarrow> svc1
      | port0 # _ \<Rightarrow> svc1\<lparr>Svc_Port := ucast (PublicPort port0)\<rparr>)"

fun docker_status :: "container list \<Rightarrow> MCPService list \<Rightarrow> error + MCPService list" where
  "docker_status cs [] = Inr []"
| "docker_status cs (svc # rest) =
     (case find_container (''clawmcp-'' @ Svc_Name svc) cs of
        Inl panic \<Rightarrow> Inl panic
      | Inr found \<Rightarrow>
         (case docker_status cs rest of
            Inl panic \<Rightarrow> Inl panic
          | Inr rest' \<Rightarrow>
             Inr ((case found of None \<Rightarrow> svc | Some c \<Rightarrow> container_status c svc) # rest')))"

definition GetServices :: "Manager \<Rightarrow> (error + MCPService list) \<times> Manager" where
  "GetServices m =
     (let enabled = map (process_status (running m)) (MCP_Enabled (MCP (config m)));
          m1 = m\<lparr>config := (config m)\<lparr>MCP := (MCP (config m))\<lparr>MCP_Enabled := enabled\<rparr>\<rparr>\<rparr>;
          result = enabled
      in case client m1 of
           None \<Rightarrow> (Inr result, m1)
         | Some e \<Rightarrow>
            (case ContainerList True e of
               Inl err \<Rightarrow> (Inr result, m1)
             | Inr cs \<Rightarrow> (docker_status cs result, m1)))"

text \<open>
  \<open>CallTool\<close>, lines 466 to 514, in its two halves: up to the write (lines 467 to 495),
  and from the read on (lines 497 to 513). The context argument is never looked at.
\<close>

datatype 'a sent = Done 'a | Sent

definition CallTool_send ::
  "externals \<Rightarrow> string \<Rightarrow> string \<Rightarrow> iface \<Rightarrow> Manager \<Rightarrow> (error + iface) sent \<times> Manager" where
  "CallTool_send X svcName toolName args m =
     (case running m svcName of
        None \<Rightarrow> (Done (Inl (NotRunning svcName)), m)
      | Some p \<Rightarrow>
         (let req = toolsCallReq toolName args (ID p);
              p1 = p\<lparr>ID := ID p + 1\<rparr>
          in case json_Marshal X req of
               Inl err \<Rightarrow> (Done (Inl err), m\<lparr>running := (running m)(svcName \<mapsto> p1)\<rparr>)
             | Inr data \<Rightarrow>
                (case Write (Stdin p1) (data @ ''\<newline>'') of
                   (Some err, w) \<Rightarrow>
                     (Done (Inl err), m\<lparr>running := (running m)(svcName \<mapsto> p1\<lparr>Stdin := w\<rparr>)\<rparr>)
                 | (None, w) \<Rightarrow>
                     (Sent, m\<lparr>running := (running m)(svcName \<mapsto> p1\<lparr>Stdin := w\<rparr>)\<rparr>))))"

definition lookup :: "(string \<times> iface) list \<Rightarrow> string \<Rightarrow> iface" where
  "lookup resp k = (case map_of resp k of None \<Rightarrow> INil | Some v \<Rightarrow> v)"

definition CallTool_decode :: "externals \<Rightarrow> string \<Rightarrow> error + iface" where
  "CallTool_decode X buf =
     (case json_Unmarshal X buf of
        Inl err \<Rightarrow> Inl err
      | Inr resp \<Rightarrow>
         (case lookup resp ''error'' of
            IMap errMsg \<Rightarrow> Inl (MCPError (lookup errMsg ''message''))
          | _ \<Rightarrow> Inr (lookup resp ''result'')))"

text \<open>
  The read half. The caller reads from the process object it looked up before its write
  (line 468), and this definition finds that object under the service's name again. That
  is the same object as long as the table entry has not been deleted or replaced since
  the write: nothing happens between the halves in \<open>CallTool\<close> below, and between the
  halves of a call in a schedule only the halves of other calls and the actions of the
  backend happen, none of which registers, deletes or replaces an entry. A stop followed
  by a restart between the two halves of one call is not covered by this definition. If
  the entry has been deleted since the write, the pipes were closed by the wait and the
  read fails.
\<close>

definition CallTool_recv ::
  "externals \<Rightarrow> string \<Rightarrow> Manager \<Rightarrow> (error + iface) outcome \<times> Manager" where
  "CallTool_recv X svcName m =
     (case running m svcName of
        None \<Rightarrow> (Returns (Inl (LibError ''file already closed'')), m)
      | Some p \<Rightarrow>
         (case Read 65536 (Stdout p) of
            Blocks \<Rightarrow> (Blocks, m)
          | Returns ((buf, err), r) \<Rightarrow>
             (let m1 = m\<lparr>running := (running m)(svcName \<mapsto> p\<lparr>Stdout := r\<rparr>)\<rparr> in
              case err of
                None \<Rightarrow> (Returns (CallTool_decode X buf), m1)
              | Some e \<Rightarrow>
                  if e \<noteq> EOF then (Returns (Inl e), m1)
                  else (Returns (CallTool_decode X buf), m1))))"

definition CallTool ::
  "externals \<Rightarrow> string \<Rightarrow> string \<Rightarrow> iface \<Rightarrow> Manager \<Rightarrow> (error + iface) outcome \<times> Manager" where
  "CallTool X svcName toolName args m =
     (case CallTool_send X svcName toolName args m of
        (Done res, m1) \<Rightarrow> (Returns res, m1)
      | (Sent, m1) \<Rightarrow> CallTool_recv X svcName m1)"

text \<open>\<open>GetContainerLogs\<close>, lines 516 to 551.\<close>

definition GetContainerLogs ::
  "externals \<Rightarrow> string \<Rightarrow> Manager \<Rightarrow> (error + string) outcome \<times> Manager" where
  "GetContainerLogs X svcName m =
     (case running m svcName of
        Some p \<Rightarrow>
          (case Read 4096 (Stderr p) of
             Blocks \<Rightarrow> (Blocks, m)
           | Returns ((buf, err), r) \<Rightarrow>
               (Returns (Inr buf), m\<lparr>running := (running m)(svcName \<mapsto> p\<lparr>Stderr := r\<rparr>)\<rparr>))
      | None \<Rightarrow>
          (case client m of
             None \<Rightarrow> (Returns (Inl (NoLogs svcName)), m)
           | Some e \<Rightarrow>
              (case ContainerList False e of
                 Inl err \<Rightarrow> (Returns (Inl err), m)
               | Inr cs \<Rightarrow>
                  (case find_container (''clawmcp-'' @ svcName) cs of
                     Inl panic \<Rightarrow> (Returns (Inl panic), m)
                   | Inr (Some c) \<Rightarrow> (Returns (ContainerLogs X c), m)
                   | Inr None \<Rightarrow> (Returns (Inl (NoLogs svcName)), m)))))"

section \<open>The HTTP facade (package handler)\<close>

record ServiceInfo =
  Info_Name :: string
  Info_DisplayName :: string
  Info_Description :: string
  Info_Status :: string
  Info_Port :: go_int
  Info_Tools :: "MCPTool list"

definition to_ServiceInfo :: "MCPService \<Rightarrow> ServiceInfo" where
  "to_ServiceInfo svc =
     \<lparr>Info_Name = Svc_Name svc, Info_DisplayName = Svc_DisplayName svc,
      Info_Description = Svc_Description svc, Info_Status = Svc_Status svc,
      Info_Port = Svc_Port svc, Info_Tools = Svc_Tools svc\<rparr>"

text \<open>\<open>Handler.GetServices\<close>: the list the facade answers with, or the error.\<close>

definition ListServices :: "Manager \<Rightarrow> (error + ServiceInfo list) \<times> Manager" where
  "ListServices m =
     (case GetServices m of
        (Inl err, m1) \<Rightarrow> (Inl err, m1)
      | (Inr services, m1) \<Rightarrow> (Inr (map to_ServiceInfo services), m1))"

section \<open>The backend as the manager's environment\<close>

text \<open>
  What the child does on its own, seen from the gateway: it writes bytes to its standard
  output, it closes its standard output, or it terminates (its output ends and its input
  loses its reader). No code of the manager runs at any of these.
\<close>

definition backend_writes :: "string \<Rightarrow> string \<Rightarrow> Manager \<Rightarrow> Manager" where
  "backend_writes svcName bytes m =
     (case running m svcName of
        None \<Rightarrow> m
      | Some p \<Rightarrow>
          m\<lparr>running := (running m)(svcName \<mapsto>
               p\<lparr>Stdout := (Stdout p)\<lparr>avail := avail (Stdout p) @ bytes\<rparr>\<rparr>)\<rparr>)"

definition backend_closes :: "string \<Rightarrow> Manager \<Rightarrow> Manager" where
  "backend_closes svcName m =
     (case running m svcName of
        None \<Rightarrow> m
      | Some p \<Rightarrow>
          m\<lparr>running := (running m)(svcName \<mapsto> p\<lparr>Stdout := (Stdout p)\<lparr>eof := True\<rparr>\<rparr>)\<rparr>)"

definition child_exit :: "string \<Rightarrow> Manager \<Rightarrow> Manager" where
  "child_exit svcName m =
     (case running m svcName of
        None \<Rightarrow> m
      | Some p \<Rightarrow>
          m\<lparr>running := (running m)(svcName \<mapsto>
               p\<lparr>Proc_Cmd := (Proc_Cmd p)\<lparr>exited := True\<rparr>,
                 Stdin := (Stdin p)\<lparr>broken := True\<rparr>,
                 Stdout := (Stdout p)\<lparr>eof := True\<rparr>,
                 Stderr := (Stderr p)\<lparr>eof := True\<rparr>\<rparr>)\<rparr>)"

text \<open>
  Callers of \<open>CallTool\<close> running side by side on one service. \<open>CallTool\<close> takes no lock
  between its write and its read, so another caller and the backend can act in between:
  a schedule is a list of events, each the write half or the read half of one caller's
  \<open>CallTool\<close>, or an action of the backend. A read half scheduled while nothing can be
  read has not happened yet, so such a schedule is not a run (\<open>None\<close>). The results are
  kept per caller, in the order the calls return.
\<close>

datatype event =
    Caller_sends string string iface
  | Caller_reads string
  | Backend_writes string
  | Backend_closes

record world =
  W_manager :: Manager
  W_results :: "(string \<times> (error + iface)) list"

fun step :: "externals \<Rightarrow> string \<Rightarrow> event \<Rightarrow> world \<Rightarrow> world option" where
  "step X svcName (Caller_sends caller toolName args) w =
     (case CallTool_send X svcName toolName args (W_manager w) of
        (Done res, m) \<Rightarrow> Some \<lparr>W_manager = m, W_results = W_results w @ [(caller, res)]\<rparr>
      | (Sent, m) \<Rightarrow> Some \<lparr>W_manager = m, W_results = W_results w\<rparr>)"
| "step X svcName (Caller_reads caller) w =
     (case CallTool_recv X svcName (W_manager w) of
        (Blocks, m) \<Rightarrow> None
      | (Returns res, m) \<Rightarrow> Some \<lparr>W_manager = m, W_results = W_results w @ [(caller, res)]\<rparr>)"
| "step X svcName (Backend_writes bytes) w =
     Some (w\<lparr>W_manager := backend_writes svcName bytes (W_manager w)\<rparr>)"
| "step X svcName Backend_closes w =
     Some (w\<lparr>W_manager := backend_closes svcName (W_manager w)\<rparr>)"

fun run_schedule :: "externals \<Rightarrow> string \<Rightarrow> event list \<Rightarrow> world \<Rightarrow> world option" where
  "run_schedule X svcName [] w = Some w"
| "run_schedule X svcName (ev # evs) w =
     (case step X svcName ev w of None \<Rightarrow> None | Some w' \<Rightarrow> run_schedule X svcName evs w')"

section \<open>The stdio gateway (package mcp)\<close>

record JSONRPCRequest =
  Req_JSONRPC :: string
  Req_Method :: string
  Req_Params :: string
  Req_ID :: iface

record JSONRPCError =
  Err_Code :: go_int
  Err_Message :: string
  Err_Data :: string

record JSONRPCResponse =
  Resp_JSONRPC :: string
  Resp_Result :: string
  Resp_Error :: "JSONRPCError option"
  Resp_ID :: iface

record Process =
  GP_Name :: string
  GP_Cmd :: Cmd
  GP_Stdin :: pipe_in
  GP_Stdout :: pipe_out
  GP_Stderr :: pipe_out
  GP_ID :: go_int

text \<open>
  The gateway's process table and its mutex \<open>mu\<close>: \<open>mu_locked\<close> holds while the write
  lock is taken. \<open>StartProcess\<close> and \<open>StopProcess\<close> take the write lock until they
  return; the other functions take the read lock for one look at the table, which waits
  while the write lock is held.
\<close>

record Gateway =
  processes :: "string \<rightharpoonup> Process"
  mu_locked :: bool

definition NewGateway :: Gateway where
  "NewGateway = \<lparr>processes = Map.empty, mu_locked = False\<rparr>"

record gw_externals = externals +
  marshal_request :: "JSONRPCRequest \<Rightarrow> error + string"
  unmarshal_response :: "string \<Rightarrow> error + JSONRPCResponse"
  unmarshal_tools :: "string \<Rightarrow> error + MCPTool list"

text \<open>
  \<open>bufio.Reader.ReadBytes('\n')\<close> on the child's output. The reader's buffer and the
  unread bytes of the pipe form one queue, since nothing else reads the pipe. The call
  returns the bytes up to and including the first newline; at the end of the stream it
  returns what is left together with \<open>io.EOF\<close>; otherwise it waits for more.
\<close>

definition ReadBytes :: "pipe_out \<Rightarrow> ((string \<times> error option) \<times> pipe_out) outcome" where
  "ReadBytes r =
     (if CHR 0x0A \<in> set (avail r)
      then Returns ((takeWhile (\<lambda>c. c \<noteq> CHR 0x0A) (avail r) @ ''\<newline>'', None),
                    r\<lparr>avail := tl (dropWhile (\<lambda>c. c \<noteq> CHR 0x0A) (avail r))\<rparr>)
      else if eof r then Returns ((avail r, Some EOF), r\<lparr>avail := []\<rparr>)
      else Blocks)"

definition sendRequest ::
  "'a gw_externals_scheme \<Rightarrow> string \<Rightarrow> JSONRPCRequest \<Rightarrow> Gateway \<Rightarrow> (error option) outcome \<times> Gateway" where
  "sendRequest X name req g =
     (if mu_locked g then (Blocks, g)
      else case marshal_request X req of
             Inl err \<Rightarrow> (Returns (Some err), g)
           | Inr data \<Rightarrow>
              (case processes g name of
                 None \<Rightarrow> (Returns (Some NilPointer), g)
               | Some p \<Rightarrow>
                  (case Write (GP_Stdin p) (data @ ''\<newline>'') of
                     (err, w) \<Rightarrow>
                       (Returns err, g\<lparr>processes := (processes g)(name \<mapsto> p\<lparr>GP_Stdin := w\<rparr>)\<rparr>))))"

text \<open>
  \<open>readResponse\<close>, lines 274 to 299. \<open>ctx_done\<close> is the context's error if the context
  is already done when the \<open>select\<close> is evaluated. The timer made by \<open>time.After\<close> in the
  same statement fires 30 seconds later, so it is never ready at that moment: with a
  \<open>default\<close> case present the \<open>select\<close> does not wait for it, and the read that follows
  is an ordinary waiting read.
\<close>

definition readResponse ::
  "error option \<Rightarrow> 'a gw_externals_scheme \<Rightarrow> string \<Rightarrow> Gateway \<Rightarrow>
   (error + JSONRPCResponse) outcome \<times> Gateway" where
  "readResponse ctx_done X name g =
     (if mu_locked g then (Blocks, g)
      else case ctx_done of
             Some err \<Rightarrow> (Returns (Inl err), g)
           | None \<Rightarrow>
              (case processes g name of
                 None \<Rightarrow> (Returns (Inl NilPointer), g)
               | Some p \<Rightarrow>
                  (case ReadBytes (GP_Stdout p) of
                     Blocks \<Rightarrow> (Blocks, g)
                   | Returns ((data, rerr), r) \<Rightarrow>
                      (let g1 = g\<lparr>processes := (processes g)(name \<mapsto> p\<lparr>GP_Stdout := r\<rparr>)\<rparr> in
                       case rerr of
                         Some err \<Rightarrow> (Returns (Inl err), g1)
                       | None \<Rightarrow> (Returns (unmarshal_response X data), g1)))))"

definition initialize_params :: string where
  \<open>initialize_params =
     ''{"protocolVersion":"2024-11-05","capabilities":{},"clientInfo":{"name":"clawmcp-gateway","version":"1.0.0"}}''\<close>

definition initialize ::
  "error option \<Rightarrow> 'a gw_externals_scheme \<Rightarrow> string \<Rightarrow> Gateway \<Rightarrow> (error option) outcome \<times> Gateway" where
  "initialize ctx_done X name g =
     (let req = \<lparr>Req_JSONRPC = ''2.0'', Req_Method = ''initialize'',
                 Req_Params = initialize_params,
                 Req_ID = IInt 1\<rparr>
      in case sendRequest X name req g of
           (Blocks, g1) \<Rightarrow> (Blocks, g1)
         | (Returns (Some err), g1) \<Rightarrow> (Returns (Some err), g1)
         | (Returns None, g1) \<Rightarrow>
            (case readResponse ctx_done X name g1 of
               (Blocks, g2) \<Rightarrow> (Blocks, g2)
             | (Returns (Inl err), g2) \<Rightarrow> (Returns (Some err), g2)
             | (Returns (Inr resp), g2) \<Rightarrow> (Returns None, g2)))"

text \<open>
  \<open>StartProcess\<close>, lines 71 to 133. The write lock is taken on entry and released on
  return; \<open>initialize\<close> runs while it is held. \<open>NilPointer\<close> is never a returned
  error, only the panic of a nil dereference, which unwinds through \<open>StartProcess\<close>
  past its clean-up.
\<close>

definition StartProcess ::
  "error option \<Rightarrow> 'a gw_externals_scheme \<Rightarrow> string \<Rightarrow> string \<Rightarrow> string list \<Rightarrow> string list \<Rightarrow>
   Gateway \<Rightarrow> (error option) outcome \<times> Gateway" where
  "StartProcess ctx_done X name img args env g =
     (if mu_locked g then (Blocks, g)
      else case processes g name of
        Some p \<Rightarrow> (Returns None, g)
      | None \<Rightarrow>
         (let argv = (if img = ''uvx'' \<or> img = ''npx''
                      then ''uvx'' # img # args
                      else ''docker'' # [''run'', ''--rm'', ''-i'']
                             @ concat (map (\<lambda>e. [''-e'', e]) env) @ [img] @ args);
              cmd_env = env @ Environ (os_env X)
          in case StdinPipe_err X of
               Some err \<Rightarrow> (Returns (Some (Wrapped ''failed to create stdin pipe'' err)), g)
             | None \<Rightarrow>
            (case StdoutPipe_err X of
               Some err \<Rightarrow> (Returns (Some (Wrapped ''failed to create stdout pipe'' err)), g)
             | None \<Rightarrow>
            (case StderrPipe_err X of
               Some err \<Rightarrow> (Returns (Some (Wrapped ''failed to create stderr pipe'' err)), g)
             | None \<Rightarrow>
            (case cmd_Start X argv of
               Some err \<Rightarrow> (Returns (Some (Wrapped ''failed to start process'' err)), g)
             | None \<Rightarrow>
               (let g1 = g\<lparr>mu_locked := True,
                           processes := (processes g)(name \<mapsto>
                             \<lparr>GP_Name = name,
                              GP_Cmd = \<lparr>Cmd_Args = argv, Cmd_Env = cmd_env, Cmd_Setsid = False,
                                        exited = False,
                                        exits_on_close = child_exits_on_close X argv\<rparr>,
                              GP_Stdin = new_pipe_in, GP_Stdout = new_pipe_out,
                              GP_Stderr = new_pipe_out, GP_ID = 1\<rparr>)\<rparr>
                in case initialize ctx_done X name g1 of
                     (Blocks, g2) \<Rightarrow> (Blocks, g2)
                   | (Returns (Some err), g2) \<Rightarrow>
                       if err = NilPointer
                       then (Returns (Some NilPointer), g2\<lparr>mu_locked := False\<rparr>)
                       else (Returns (Some (Wrapped ''failed to initialize MCP'' err)),
                             g2\<lparr>processes := (processes g2)(name := None),
                                mu_locked := False\<rparr>)
                   | (Returns None, g2) \<Rightarrow> (Returns None, g2\<lparr>mu_locked := False\<rparr>)))))))"

text \<open>\<open>Gateway.CallTool\<close>, lines 171 to 217, and \<open>Gateway.ListTools\<close>, lines 220 to 258.\<close>

definition Gateway_CallTool ::
  "error option \<Rightarrow> 'a gw_externals_scheme \<Rightarrow> string \<Rightarrow> string \<Rightarrow> iface \<Rightarrow> Gateway \<Rightarrow>
   (error + (string \<times> iface) list) outcome \<times> Gateway" where
  "Gateway_CallTool ctx_done X name toolName args g =
     (if mu_locked g then (Blocks, g)
      else case processes g name of
        None \<Rightarrow> (Returns (Inl (NotRunning name)), g)
      | Some p \<Rightarrow>
         (let params = IMap [(''name'', IStr toolName), (''arguments'', args)];
              req = \<lparr>Req_JSONRPC = ''2.0'', Req_Method = ''tools/call'',
                     Req_Params = marshal_data (externals.truncate X) params,
                     Req_ID = IInt (GP_ID p)\<rparr>;
              g0 = g\<lparr>processes := (processes g)(name \<mapsto> p\<lparr>GP_ID := GP_ID p + 1\<rparr>)\<rparr>
          in case sendRequest X name req g0 of
               (Blocks, g1) \<Rightarrow> (Blocks, g1)
             | (Returns (Some err), g1) \<Rightarrow> (Returns (Inl err), g1)
             | (Returns None, g1) \<Rightarrow>
                (case readResponse ctx_done X name g1 of
                   (Blocks, g2) \<Rightarrow> (Blocks, g2)
                 | (Returns (Inl err), g2) \<Rightarrow> (Returns (Inl err), g2)
                 | (Returns (Inr resp), g2) \<Rightarrow>
                    (case Resp_Error resp of
                       Some e \<Rightarrow> (Returns (Inl (MCPError (IStr (Err_Message e)))), g2)
                     | None \<Rightarrow> (Returns (json_Unmarshal X (Resp_Result resp)), g2)))))"

definition Gateway_ListTools ::
  "error option \<Rightarrow> 'a gw_externals_scheme \<Rightarrow> string \<Rightarrow> Gateway \<Rightarrow>
   (error + MCPTool list) outcome \<times> Gateway" where
  "Gateway_ListTools ctx_done X name g =
     (if mu_locked g then (Blocks, g)
      else case processes g name of
        None \<Rightarrow> (Returns (Inl (NotRunning name)), g)
      | Some p \<Rightarrow>
         (let req = \<lparr>Req_JSONRPC = ''2.0'', Req_Method = ''tools/list'', Req_Params = [],
                     Req_ID = IInt 1\<rparr>
          in case sendRequest X name req g of
               (Blocks, g1) \<Rightarrow> (Blocks, g1)
             | (Returns (Some err), g1) \<Rightarrow> (Returns (Inl err), g1)
             | (Returns None, g1) \<Rightarrow>
                (case readResponse ctx_done X name g1 of
                   (Blocks, g2) \<Rightarrow> (Blocks, g2)
                 | (Returns (Inl err), g2) \<Rightarrow> (Returns (Inl err), g2)
                 | (Returns (Inr resp), g2) \<Rightarrow>
                    (case Resp_Error resp of
                       Some e \<Rightarrow> (Returns (Inl (MCPError (IStr (Err_Message e)))), g2)
                     | None \<Rightarrow> (Returns (unmarshal_tools X (Resp_Result resp)), g2)))))"

section \<open>Example inputs\<close>

text \<open>
  A service named probe with two environment bindings: one with both a literal value and
  an indirect source, one with only an indirect source that the environment does not set.
  The service is a local process when \<open>command\<close> is given and a container otherwise.
\<close>

definition probe_env :: "EnvVar list" where
  "probe_env =
     [\<lparr>Env_Name = ''API_KEY'', Env_Value = ''literal'', Env_ValueFrom = ''env:TOKEN''\<rparr>,
      \<lparr>Env_Name = ''OTHER'', Env_Value = [], Env_ValueFrom = ''env:UNSET''\<rparr>]"

definition probe_service :: "string \<Rightarrow> string \<Rightarrow> MCPService" where
  "probe_service command img =
     \<lparr>Svc_Name = ''probe'', Svc_DisplayName = ''Probe'', Svc_Description = [],
      Svc_Image = img, Svc_Command = command, Svc_Args = [], Svc_Env = probe_env,
      Svc_Port = 0, Svc_Enabled = True, Svc_Status = [], Svc_Tools = [],
      Svc_HealthCheck = \<lparr>Health_Enabled = False, Health_Interval = [], Health_URL = []\<rparr>\<rparr>"

definition config_of :: "MCPService list \<Rightarrow> Config" where
  "config_of services =
     \<lparr>Server = \<lparr>Server_Host = ''0.0.0.0'', Server_Port = 8080\<rparr>,
      Docker = \<lparr>Docker_Network = ''clawmcp-network'', Docker_ImagePrefix = [],
                Docker_RestartPolicy = [], Docker_SocketPath = ''/var/run/docker.sock''\<rparr>,
      MCP = \<lparr>MCP_Enabled = services\<rparr>,
      Web = \<lparr>Web_Enable = True, Web_Port = 8081, Web_Title = []\<rparr>,
      EnvFiles = []\<rparr>"

definition idle_engine :: engine where
  "idle_engine = \<lparr>E_containers = [], E_down = False\<rparr>"

text \<open>
  A host on which the pipes can be made and every program starts (\<open>can_spawn\<close>), and one
  such host given in full. Its JSON functions are stand-ins, the same bytes for every
  request and a decoder that fails; nothing that is evaluated on this host depends on
  either.
\<close>

definition can_spawn :: "externals \<Rightarrow> externals" where
  "can_spawn X =
     X\<lparr>StdinPipe_err := None, StdoutPipe_err := None, StderrPipe_err := None,
       cmd_Start := (\<lambda>argv. None)\<rparr>"

definition example_host :: externals where
  "example_host =
     \<lparr>os_env = [(''TOKEN'', ''from-env'')],
      StdinPipe_err = None, StdoutPipe_err = None, StderrPipe_err = None,
      cmd_Start = (\<lambda>argv. None),
      child_exits_on_close = (\<lambda>argv. True),
      strings_Fields = (\<lambda>s. [s]),
      json_Marshal = (\<lambda>v. Inr ''{}''),
      json_Unmarshal = (\<lambda>b. Inl (LibError ''not decoded'')),
      ContainerLogs = (\<lambda>c. Inr (Ctr_Logs c))\<rparr>"

text \<open>
  States of the manager reached from a new manager by its own operations: the probe
  service as a local process before and after \<open>StartService\<close>, the same after the child
  has terminated on its own, and the probe service as a container after \<open>StartService\<close>
  and \<open>StopService\<close>.
\<close>

definition local_manager :: Manager where
  "local_manager = NewManager None (config_of [probe_service ''probe-server'' []])"

definition started_manager :: Manager where
  "started_manager = snd (StartService example_host ''probe'' local_manager)"

definition crashed_manager :: Manager where
  "crashed_manager = child_exit ''probe'' started_manager"

definition stopped_container_manager :: Manager where
  "stopped_container_manager =
     snd (StopService ''probe'' (snd (StartService example_host ''probe''
       (NewManager (Some idle_engine) (config_of [probe_service [] ''mcp/probe''])))))"

definition probe_process :: ProcessInfo where
  "probe_process =
     \<lparr>Proc_Name = ''probe'',
      Proc_Cmd = \<lparr>Cmd_Args = [''probe-server''],
                  Cmd_Env = [''TOKEN=from-env'', ''API_KEY=literal''],
                  Cmd_Setsid = True, exited = False, exits_on_close = True\<rparr>,
      Stdin = new_pipe_in, Stdout = new_pipe_out, Stderr = new_pipe_out, ID = 1\<rparr>"

text \<open>
  A host on which, besides, every request can be marshalled: \<open>enc\<close> gives the bytes of
  a request. The probe service started on a host, before anything is written or read.
\<close>

definition can_marshal :: "(iface \<Rightarrow> string) \<Rightarrow> externals \<Rightarrow> externals" where
  "can_marshal enc X = (can_spawn X)\<lparr>json_Marshal := (\<lambda>v. Inr (enc v))\<rparr>"

definition probe_started :: "externals \<Rightarrow> Manager" where
  "probe_started X = snd (StartService X ''probe'' local_manager)"

text \<open>The value under "id" of a request.\<close>

definition request_id :: "iface \<Rightarrow> iface" where
  "request_id req = (case req of IMap kvs \<Rightarrow> lookup kvs ''id'' | _ \<Rightarrow> INil)"

text \<open>
  What a backend writes in answer to the requests with ids 1 and 2, one line each, and
  the first part of the first line as it may arrive on its own.
\<close>

definition reply_1 :: string where
  \<open>reply_1 = ''{"jsonrpc":"2.0","id":1,"result":"for the first request"}\<newline>''\<close>

definition reply_2 :: string where
  \<open>reply_2 = ''{"jsonrpc":"2.0","id":2,"result":"for the second request"}\<newline>''\<close>

definition reply_1_head :: string where
  \<open>reply_1_head = ''{"jsonrpc":"2.0","id":1,''\<close>

text \<open>A service descriptor with its status field blanked.\<close>

definition without_status :: "MCPService \<Rightarrow> MCPService" where
  "without_status svc = svc\<lparr>Svc_Status := []\<rparr>"

section \<open>Load applies exactly four defaults\<close>

text \<open>
  C10: for every configuration that parses, \<open>Load\<close> succeeds and returns it with a zero
  server port replaced by 8080, a zero web port by 8081, an empty docker network by
  "clawmcp-network" and an empty docker socket path by "/var/run/docker.sock"; values of
  those four fields that are already set are kept, and every other field (server host,
  docker image prefix and restart policy, the whole service list, the web enable flag and
  title, the env file list) is returned as parsed.
\<close>

theorem Load_defaults:
  "\<exists>config env'.
     Load loadEnvFile None (Inr (parsed :: Config)) env = (Inr config, env') \<and>
     Server_Port (Server config) =
       (if Server_Port (Server parsed) = 0 then 8080 else Server_Port (Server parsed)) \<and>
     Web_Port (Web config) =
       (if Web_Port (Web parsed) = 0 then 8081 else Web_Port (Web parsed)) \<and>
     Docker_Network (Docker config) =
       (if Docker_Network (Docker parsed) = [] then ''clawmcp-network''
        else Docker_Network (Docker parsed)) \<and>
     Docker_SocketPath (Docker config) =
       (if Docker_SocketPath (Docker parsed) = [] then ''/var/run/docker.sock''
        else Docker_SocketPath (Docker parsed)) \<and>
     Server_Host (Server config) = Server_Host (Server parsed) \<and>
     Docker_ImagePrefix (Docker config) = Docker_ImagePrefix (Docker parsed) \<and>
     Docker_RestartPolicy (Docker config) = Docker_RestartPolicy (Docker parsed) \<and>
     MCP config = MCP parsed \<and>
     Web_Enable (Web config) = Web_Enable (Web parsed) \<and>
     Web_Title (Web config) = Web_Title (Web parsed) \<and>
     EnvFiles config = EnvFiles parsed"
  by (simp add: Load_def set_defaults_def Let_def)

section \<open>Environment bindings of a launched backend\<close>

text \<open>
  The loop of the local process path: a literal value wins over an indirect source, and a
  binding that ends with no value is left out.
\<close>

lemma process_env_step_literal:
  "Env_Value e \<noteq> [] \<Longrightarrow>
   process_env_step osenv env e = env @ [Env_Name e @ ''='' @ Env_Value e]"
  by (simp add: process_env_step_def Let_def)

lemma process_env_step_unresolved:
  "Env_Value e = [] \<Longrightarrow> HasPrefix (Env_ValueFrom e) ''env:'' \<Longrightarrow>
   Getenv osenv (TrimPrefix (Env_ValueFrom e) ''env:'') = [] \<Longrightarrow>
   process_env_step osenv env e = env"
  by (simp add: process_env_step_def Let_def)

text \<open>
  The loop of the container path: an indirect source replaces the literal value, and the
  binding is always passed on, also with an empty value.
\<close>

lemma container_env_step_indirect:
  "HasPrefix (Env_ValueFrom e) ''env:'' \<Longrightarrow>
   container_env_step osenv env e =
     env @ [Env_Name e @ ''='' @ Getenv osenv (TrimPrefix (Env_ValueFrom e) ''env:'')]"
  by (auto simp: container_env_step_def Let_def HasPrefix_def)

text \<open>
  C7, evaluated on the probe service with \<open>TOKEN=from-env\<close> in the gateway's environment
  and \<open>UNSET\<close> not set. Started as a container, \<open>API_KEY\<close> gets the indirect value although
  a literal one is configured, and \<open>OTHER\<close>, whose source is unset, is passed with an empty
  value. Started as a local process, \<open>API_KEY\<close> gets the literal value and \<open>OTHER\<close> is
  left out.
\<close>

theorem StartService_container_env:
  "client (snd (StartService (X\<lparr>os_env := [(''TOKEN'', ''from-env'')]\<rparr>) ''probe''
      (NewManager (Some idle_engine) (config_of [probe_service [] ''mcp/probe''])))) =
     Some \<lparr>E_containers =
        [\<lparr>Ctr_ID = ''id-clawmcp-probe'', Ctr_Names = [''/clawmcp-probe''],
          Ctr_Image = ''mcp/probe'', Ctr_Cmd = [],
          Ctr_Env = [''API_KEY=from-env'', ''OTHER=''],
          Ctr_Labels = [(''clawmcp'', ''true''), (''service'', ''probe'')],
          Ctr_State = ''running'', Ctr_Ports = [], Ctr_Logs = []\<rparr>],
        E_down = False\<rparr> \<and>
   map_option (\<lambda>p. Cmd_Env (Proc_Cmd p))
     (running (snd (StartService (can_spawn X\<lparr>os_env := [(''TOKEN'', ''from-env'')]\<rparr>) ''probe''
        (NewManager None (config_of [probe_service ''probe-server'' []])))) ''probe'') =
     Some [''TOKEN=from-env'', ''API_KEY=literal'']"
proof -
  have container:
    "client (snd (StartService (X\<lparr>os_env := [(''TOKEN'', ''from-env'')]\<rparr>) ''probe''
        (NewManager (Some idle_engine) (config_of [probe_service [] ''mcp/probe''])))) =
     Some \<lparr>E_containers =
        [\<lparr>Ctr_ID = ''id-clawmcp-probe'', Ctr_Names = [''/clawmcp-probe''],
          Ctr_Image = ''mcp/probe'', Ctr_Cmd = [],
          Ctr_Env = [''API_KEY=from-env'', ''OTHER=''],
          Ctr_Labels = [(''clawmcp'', ''true''), (''service'', ''probe'')],
          Ctr_State = ''running'', Ctr_Ports = [], Ctr_Logs = []\<rparr>],
        E_down = False\<rparr>"
    by (simp add: probe_env_def probe_service_def config_of_def idle_engine_def NewManager_def
        StartService_def startDockerContainer_def ContainerList_def ContainerCreate_def
        ContainerStart_def container_env_def container_env_step_def HasPrefix_def
        TrimPrefix_def Getenv_def Let_def)
  have process:
    "map_option (\<lambda>p. Cmd_Env (Proc_Cmd p))
       (running (snd (StartService (can_spawn X\<lparr>os_env := [(''TOKEN'', ''from-env'')]\<rparr>) ''probe''
          (NewManager None (config_of [probe_service ''probe-server'' []])))) ''probe'') =
     Some [''TOKEN=from-env'', ''API_KEY=literal'']"
    by (simp add: probe_env_def probe_service_def config_of_def can_spawn_def NewManager_def
        StartService_def start_process_def process_env_def process_env_step_def Environ_def
        HasPrefix_def TrimPrefix_def Getenv_def Let_def)
  from container process show ?thesis by (rule conjI)
qed

section \<open>The status of a listed service\<close>

lemma find_container_Some:
  "find_container n cs = Inr (Some c) \<Longrightarrow>
   c \<in> set cs \<and> (\<exists>rest. Ctr_Names c = (''/'' @ n) # rest)"
  by (induction cs) (auto split: list.splits if_splits)

lemma process_status_name: "Svc_Name (process_status run svc) = Svc_Name svc"
  by (simp add: process_status_def split: option.splits)

lemma process_status_status:
  "Svc_Status (process_status run svc) =
     (case run (Svc_Name svc) of Some p \<Rightarrow> ''running'' | None \<Rightarrow> ''stopped'')"
  by (simp add: process_status_def split: option.splits)

lemma container_status_status: "Svc_Status (container_status c svc) = Ctr_State c"
  by (simp add: container_status_def Let_def split: list.splits)

lemma docker_status_exact:
  "docker_status cs svcs = Inr res \<Longrightarrow>
   res = map (\<lambda>svc. case find_container (''clawmcp-'' @ Svc_Name svc) cs of
                       Inr (Some c) \<Rightarrow> container_status c svc
                     | _ \<Rightarrow> svc) svcs"
  by (induction svcs arbitrary: res) (auto split: sum.splits option.splits)

text \<open>
  The statuses of the list, exactly. The process pass gives every service "running" or
  "stopped" from the table of running processes. With a Docker client whose listing
  succeeds, a service that has a container whose first name is \<open>/clawmcp-<name>\<close> gets
  the state string of the first such container instead, unmapped.
\<close>

lemma ListServices_status_exact:
  assumes "ListServices m = (Inr infos, m')"
  shows "map Info_Status infos =
     map (\<lambda>svc.
            let own = (case running m (Svc_Name svc) of
                         Some p \<Rightarrow> ''running'' | None \<Rightarrow> ''stopped'')
            in case client m of
                 None \<Rightarrow> own
               | Some e \<Rightarrow>
                  (case ContainerList True e of
                     Inl err \<Rightarrow> own
                   | Inr cs \<Rightarrow>
                      (case find_container (''clawmcp-'' @ Svc_Name svc) cs of
                         Inr (Some c) \<Rightarrow> Ctr_State c
                       | _ \<Rightarrow> own)))
         (MCP_Enabled (MCP (config m)))"
proof -
  let ?enabled = "map (process_status (running m)) (MCP_Enabled (MCP (config m)))"
  from assms obtain services where g: "fst (GetServices m) = Inr services"
    and infos: "infos = map to_ServiceInfo services"
    by (auto simp: ListServices_def split: prod.splits sum.splits)
  have st: "map Info_Status infos = map Svc_Status services"
    by (simp add: infos to_ServiceInfo_def)
  show ?thesis
  proof (cases "client m")
    case None
    with g have "services = ?enabled" by (simp add: GetServices_def Let_def)
    with st None show ?thesis by (simp add: process_status_status Let_def)
  next
    case (Some e)
    show ?thesis
    proof (cases "ContainerList True e")
      case (Inl err)
      with g Some have "services = ?enabled" by (simp add: GetServices_def Let_def)
      with st Some Inl show ?thesis by (simp add: process_status_status Let_def)
    next
      case (Inr cs)
      with g Some have "docker_status cs ?enabled = Inr services"
        by (simp add: GetServices_def Let_def)
      from docker_status_exact [OF this] st Some Inr show ?thesis
        by (auto simp: process_status_name process_status_status container_status_status
            Let_def split: sum.splits option.splits)
    qed
  qed
qed

section \<open>What the operations do to the configuration\<close>

lemma start_process_config: "config (snd (start_process X n argv env m)) = config m"
  by (simp add: start_process_def split: option.splits)

lemma StartService_config: "config (snd (StartService X svcName m)) = config m"
  by (simp add: StartService_def Let_def start_process_config
      split: option.splits list.splits prod.splits)

lemma StopService_config: "config (snd (StopService svcName m)) = config m"
  by (simp add: StopService_def Let_def split: option.splits sum.splits prod.splits)

lemma RemoveService_config: "config (snd (RemoveService svcName m)) = config m"
proof -
  obtain out m1 where s: "StopService svcName m = (out, m1)"
    by (cases "StopService svcName m")
  then have "config m1 = config m" using StopService_config [of svcName m] by simp
  with s show ?thesis
    by (simp add: RemoveService_def Let_def
        split: outcome.splits option.splits sum.splits prod.splits)
qed

lemma CallTool_send_config: "config (snd (CallTool_send X svcName toolName args m)) = config m"
  by (simp add: CallTool_send_def Let_def split: option.splits sum.splits prod.splits)

lemma CallTool_recv_config: "config (snd (CallTool_recv X svcName m)) = config m"
  by (simp add: CallTool_recv_def Let_def split: option.splits outcome.splits prod.splits)

lemma CallTool_config: "config (snd (CallTool X svcName toolName args m)) = config m"
proof -
  obtain s m1 where c: "CallTool_send X svcName toolName args m = (s, m1)"
    by (cases "CallTool_send X svcName toolName args m")
  then have "config m1 = config m"
    using CallTool_send_config [of X svcName toolName args m] by simp
  with c show ?thesis
    by (cases s) (simp_all add: CallTool_def CallTool_recv_config)
qed

lemma GetContainerLogs_config: "config (snd (GetContainerLogs X svcName m)) = config m"
  by (simp add: GetContainerLogs_def split: option.splits outcome.splits sum.splits prod.splits)

lemma GetServices_state:
  "snd (GetServices m) =
     m\<lparr>config := (config m)\<lparr>MCP := (MCP (config m))\<lparr>MCP_Enabled :=
          map (process_status (running m)) (MCP_Enabled (MCP (config m)))\<rparr>\<rparr>\<rparr>"
  by (simp add: GetServices_def Let_def split: option.splits sum.splits)

lemma without_status_process_status:
  "without_status (process_status run svc) = without_status svc"
  by (simp add: without_status_def process_status_def split: option.splits)

text \<open>
  C9 as amended: StartService, StopService, RemoveService, CallTool and GetLogs leave the
  loaded configuration as it was. GetServices (and ListServices, which calls it) leaves
  every part of it as it was except the status field of each service descriptor, which
  it overwrites with "running" or "stopped" according to the table of running processes;
  name, command, args, image, env, port, enabled and tools are kept.
\<close>

theorem descriptors_kept:
  "config (snd (StartService X svcName m)) = config m \<and>
   config (snd (StopService svcName m)) = config m \<and>
   config (snd (RemoveService svcName m)) = config m \<and>
   config (snd (CallTool X svcName toolName args m)) = config m \<and>
   config (snd (GetContainerLogs X svcName m)) = config m \<and>
   map without_status (MCP_Enabled (MCP (config (snd (GetServices m))))) =
     map without_status (MCP_Enabled (MCP (config m))) \<and>
   map Svc_Status (MCP_Enabled (MCP (config (snd (GetServices m))))) =
     map (\<lambda>svc. case running m (Svc_Name svc) of Some p \<Rightarrow> ''running'' | None \<Rightarrow> ''stopped'')
       (MCP_Enabled (MCP (config m))) \<and>
   Server (config (snd (GetServices m))) = Server (config m) \<and>
   Docker (config (snd (GetServices m))) = Docker (config m) \<and>
   Web (config (snd (GetServices m))) = Web (config m) \<and>
   EnvFiles (config (snd (GetServices m))) = EnvFiles (config m) \<and>
   snd (ListServices m) = snd (GetServices m)"
proof -
  have a: "map without_status (MCP_Enabled (MCP (config (snd (GetServices m))))) =
     map without_status (MCP_Enabled (MCP (config m)))"
    by (simp add: GetServices_state without_status_process_status)
  have b: "map Svc_Status (MCP_Enabled (MCP (config (snd (GetServices m))))) =
     map (\<lambda>svc. case running m (Svc_Name svc) of Some p \<Rightarrow> ''running'' | None \<Rightarrow> ''stopped'')
       (MCP_Enabled (MCP (config m)))"
    by (simp add: GetServices_state process_status_def split: option.splits)
  have c: "snd (ListServices m) = snd (GetServices m)"
    by (simp add: ListServices_def split: prod.splits sum.splits)
  show ?thesis
    using a b c
    by (simp add: StartService_config StopService_config RemoveService_config CallTool_config
        GetContainerLogs_config GetServices_state)
qed

section \<open>The example states, evaluated\<close>

lemma StartService_local_manager:
  "StartService example_host ''probe'' local_manager =
     (None, local_manager\<lparr>running := [''probe'' \<mapsto> probe_process]\<rparr>)"
  by (simp add: local_manager_def probe_process_def example_host_def probe_service_def
      probe_env_def config_of_def NewManager_def StartService_def start_process_def
      process_env_def process_env_step_def Environ_def HasPrefix_def TrimPrefix_def
      Getenv_def Let_def)

lemma started_manager_running:
  "started_manager = local_manager\<lparr>running := [''probe'' \<mapsto> probe_process]\<rparr>"
  by (simp add: started_manager_def StartService_local_manager)

lemma local_manager_config:
  "find (\<lambda>s. Svc_Name s = ''probe'') (MCP_Enabled (MCP (config local_manager))) =
     Some (probe_service ''probe-server'' [])"
  by (simp add: local_manager_def NewManager_def config_of_def probe_service_def)

lemma StopService_started_manager:
  "StopService ''probe'' started_manager = (Returns None, local_manager)"
  by (simp add: started_manager_running StopService_def probe_process_def local_manager_def
      NewManager_def Let_def)

lemma crashed_manager_running:
  "crashed_manager = local_manager\<lparr>running := [''probe'' \<mapsto>
     probe_process\<lparr>Proc_Cmd := (Proc_Cmd probe_process)\<lparr>exited := True\<rparr>,
                   Stdin := new_pipe_in\<lparr>broken := True\<rparr>,
                   Stdout := new_pipe_out\<lparr>eof := True\<rparr>,
                   Stderr := new_pipe_out\<lparr>eof := True\<rparr>\<rparr>]\<rparr>"
  by (simp add: crashed_manager_def started_manager_running child_exit_def probe_process_def)

lemma stopped_container_manager_client:
  "client stopped_container_manager =
     Some \<lparr>E_containers =
        [\<lparr>Ctr_ID = ''id-clawmcp-probe'', Ctr_Names = [''/clawmcp-probe''],
          Ctr_Image = ''mcp/probe'', Ctr_Cmd = [],
          Ctr_Env = [''API_KEY=from-env'', ''OTHER=''],
          Ctr_Labels = [(''clawmcp'', ''true''), (''service'', ''probe'')],
          Ctr_State = ''exited'', Ctr_Ports = [], Ctr_Logs = []\<rparr>],
        E_down = False\<rparr>"
  by (simp add: stopped_container_manager_def probe_env_def probe_service_def config_of_def
      idle_engine_def NewManager_def example_host_def StartService_def
      startDockerContainer_def ContainerList_def ContainerCreate_def ContainerStart_def
      ContainerStop_def container_env_def container_env_step_def HasPrefix_def
      TrimPrefix_def Getenv_def Let_def StopService_def)

lemma ListServices_stopped_container_manager:
  "fst (ListServices stopped_container_manager) =
     Inr [\<lparr>Info_Name = ''probe'', Info_DisplayName = ''Probe'', Info_Description = [],
           Info_Status = ''exited'', Info_Port = 0, Info_Tools = []\<rparr>]"
  by (simp add: stopped_container_manager_def probe_env_def probe_service_def config_of_def
      idle_engine_def NewManager_def example_host_def StartService_def
      startDockerContainer_def ContainerList_def ContainerCreate_def ContainerStart_def
      ContainerStop_def container_env_def container_env_step_def HasPrefix_def
      TrimPrefix_def Getenv_def Let_def StopService_def ListServices_def GetServices_def
      process_status_def container_status_def to_ServiceInfo_def)

section \<open>The listing and the configuration on the example states\<close>

lemma ListServices_stopped_process:
  "fst (ListServices (snd (StopService ''probe'' started_manager))) =
     Inr [\<lparr>Info_Name = ''probe'', Info_DisplayName = ''Probe'', Info_Description = [],
           Info_Status = ''stopped'', Info_Port = 0, Info_Tools = []\<rparr>]"
  by (simp add: StopService_started_manager local_manager_def NewManager_def config_of_def
      probe_service_def ListServices_def GetServices_def process_status_def
      to_ServiceInfo_def Let_def)

text \<open>
  C8, evaluated. The probe service, started as a container and then stopped with
  \<open>StopService\<close>, is listed with the engine's state "exited", which is none of the four
  statuses. The same service run as a local process is listed as "stopped" after the
  same two calls.
\<close>

theorem ListServices_lists_exited:
  "fst (ListServices stopped_container_manager) =
     Inr [\<lparr>Info_Name = ''probe'', Info_DisplayName = ''Probe'', Info_Description = [],
           Info_Status = ''exited'', Info_Port = 0, Info_Tools = []\<rparr>] \<and>
   ''exited'' \<notin> {''stopped'', ''starting'', ''running'', ''failed''} \<and>
   fst (ListServices (snd (StopService ''probe'' started_manager))) =
     Inr [\<lparr>Info_Name = ''probe'', Info_DisplayName = ''Probe'', Info_Description = [],
           Info_Status = ''stopped'', Info_Port = 0, Info_Tools = []\<rparr>]"
  using ListServices_stopped_container_manager ListServices_stopped_process by simp

text \<open>
  C9 as stated fails: \<open>GetServices\<close> on a new manager changes the status field of the
  probe service's descriptor in the loaded configuration from empty to "stopped".
\<close>

theorem descriptors_kept_counterexample:
  "map Svc_Status (MCP_Enabled (MCP (config local_manager))) = [[]] \<and>
   map Svc_Status (MCP_Enabled (MCP (config (snd (GetServices local_manager))))) = [''stopped'']"
  by (simp add: local_manager_def NewManager_def config_of_def probe_service_def
      GetServices_def process_status_def Let_def)

section \<open>Starting a service twice\<close>

lemma find_container_map:
  assumes "\<And>c. Ctr_Names (f c) = Ctr_Names c"
  shows "find_container n (map f cs) =
           (case find_container n cs of
              Inl p \<Rightarrow> Inl p
            | Inr found \<Rightarrow> Inr (map_option f found))"
  by (induction cs) (auto simp: assms split: list.splits)

lemma find_container_append:
  "find_container n cs = Inr None \<Longrightarrow> find_container n (cs @ [c]) = find_container n [c]"
  by (induction cs) (auto split: list.splits if_splits)

lemma ContainerStart_found:
  assumes f: "find_container n (E_containers e) = Inr (Some c)"
    and s: "ContainerStart (Ctr_ID c) e = (None, e1)"
  shows "\<not> E_down e1 \<and>
         find_container n (E_containers e1) = Inr (Some (c\<lparr>Ctr_State := ''running''\<rparr>))"
proof -
  let ?f = "\<lambda>d. if Ctr_ID d = Ctr_ID c then d\<lparr>Ctr_State := ''running''\<rparr> else d"
  from s have nd: "\<not> E_down e" and e1: "e1 = e\<lparr>E_containers := map ?f (E_containers e)\<rparr>"
    by (auto simp: ContainerStart_def split: if_splits)
  have "find_container n (map ?f (E_containers e)) = Inr (Some (?f c))"
    using f by (subst find_container_map) auto
  with nd e1 show ?thesis by simp
qed

text \<open>A container that was started successfully is found running by the next call.\<close>

lemma startDockerContainer_again:
  assumes "startDockerContainer X n svc e = (None, e1)"
  shows "startDockerContainer X n svc e1 = (None, e1)"
proof -
  let ?cn = "''clawmcp-'' @ n"
  from assms have nd: "\<not> E_down e"
    by (auto simp: startDockerContainer_def ContainerList_def Let_def split: if_splits)
  have running_found: "startDockerContainer X n svc e' = (None, e')"
    if "\<not> E_down e'" "find_container ?cn (E_containers e') = Inr (Some c')"
       "Ctr_State c' = ''running''"
    for e' c'
    using that by (simp add: startDockerContainer_def ContainerList_def Let_def)
  show ?thesis
  proof (cases "find_container ?cn (E_containers e)")
    case (Inl p)
    with assms nd show ?thesis
      by (simp add: startDockerContainer_def ContainerList_def Let_def)
  next
    case (Inr found)
    show ?thesis
    proof (cases found)
      case (Some c)
      show ?thesis
      proof (cases "Ctr_State c = ''running''")
        case True
        with assms nd Inr Some have "e1 = e"
          by (simp add: startDockerContainer_def ContainerList_def Let_def)
        with running_found [OF nd] Inr Some True show ?thesis by simp
      next
        case False
        with assms nd Inr Some have "ContainerStart (Ctr_ID c) e = (None, e1)"
          by (simp add: startDockerContainer_def ContainerList_def Let_def)
        with Inr Some ContainerStart_found [of ?cn e c e1]
        have "\<not> E_down e1"
          "find_container ?cn (E_containers e1) = Inr (Some (c\<lparr>Ctr_State := ''running''\<rparr>))"
          by simp_all
        then show ?thesis using running_found by simp
      qed
    next
      case None
      let ?new = "\<lparr>Ctr_ID = ''id-'' @ ?cn, Ctr_Names = [''/'' @ ?cn],
                   Ctr_Image = Svc_Image svc,
                   Ctr_Cmd = (if Svc_Command svc \<noteq> [] then [Svc_Command svc] else [])
                             @ Svc_Args svc,
                   Ctr_Env = container_env (os_env X) (Svc_Env svc),
                   Ctr_Labels = [(''clawmcp'', ''true''), (''service'', n)],
                   Ctr_State = ''created'', Ctr_Ports = [], Ctr_Logs = []\<rparr>"
      let ?e' = "e\<lparr>E_containers := E_containers e @ [?new]\<rparr>"
      from assms nd Inr None have st: "ContainerStart (''id-'' @ ?cn) ?e' = (None, e1)"
        by (auto simp: startDockerContainer_def ContainerList_def Let_def ContainerCreate_def
            split: if_splits prod.splits sum.splits)
      have "find_container ?cn (E_containers ?e') = Inr (Some ?new)"
        using Inr None by (simp add: find_container_append)
      with st ContainerStart_found [of ?cn ?e' ?new e1]
      have "\<not> E_down e1"
        "find_container ?cn (E_containers e1) = Inr (Some (?new\<lparr>Ctr_State := ''running''\<rparr>))"
        by simp_all
      then show ?thesis using running_found by simp
    qed
  qed
qed

lemma start_process_running:
  "start_process X n argv env m = (None, m1) \<Longrightarrow> running m1 n \<noteq> None"
  by (auto simp: start_process_def split: option.splits)

lemma StartService_registered:
  "running m n = Some p \<Longrightarrow>
   find (\<lambda>s. Svc_Name s = n) (MCP_Enabled (MCP (config m))) = Some svc \<Longrightarrow>
   StartService X n m = (None, m)"
  by (simp add: StartService_def)

lemma StartService_again:
  assumes "StartService X n m = (None, m1)"
  shows "StartService X n m1 = (None, m1)"
proof -
  from assms obtain svc
    where svc: "find (\<lambda>s. Svc_Name s = n) (MCP_Enabled (MCP (config m))) = Some svc"
    by (auto simp: StartService_def split: option.splits)
  have cfg: "config m1 = config m"
    using assms StartService_config [of X n m] by simp
  show ?thesis
  proof (cases "running m n")
    case (Some p)
    with assms svc have "m1 = m" by (simp add: StartService_def)
    with Some svc show ?thesis by (simp add: StartService_registered)
  next
    case None
    show ?thesis
    proof (cases "running m1 n")
      case (Some q)
      with svc cfg show ?thesis by (simp add: StartService_registered)
    next
      case n1: None
      have noproc: "start_process X n argv env m \<noteq> (None, m1)" for argv env
        using n1 start_process_running by blast
      from assms svc None noproc obtain e e1 where
        e: "client m = Some e" and nc: "Svc_Command svc = []"
        and nu: "\<not> HasPrefix (Svc_Image svc) ''uvx ''"
        and sd: "startDockerContainer X n svc e = (None, e1)"
        and m1: "m1 = m\<lparr>client := Some e1\<rparr>"
        by (auto simp: StartService_def Let_def
            split: if_splits list.splits option.splits prod.splits)
      from startDockerContainer_again [OF sd] svc None nc nu m1 show ?thesis
        by (simp add: StartService_def Let_def)
    qed
  qed
qed

lemma StopService_unregisters:
  "StopService n m = (Returns None, m1) \<Longrightarrow> running m1 n = None"
  by (auto simp: StopService_def Let_def split: option.splits sum.splits prod.splits if_splits)

lemma StartService_fresh:
  "running m n = None \<Longrightarrow> StartService X n m = (r, m1) \<Longrightarrow> running m1 n = Some q \<Longrightarrow>
   r = None \<and> ID q = 1 \<and> Stdin q = new_pipe_in \<and> Stdout q = new_pipe_out \<and>
   Stderr q = new_pipe_out \<and> \<not> exited (Proc_Cmd q)"
  by (auto simp: StartService_def Let_def start_process_def
      split: if_splits list.splits option.splits prod.splits)

text \<open>
  A configured service with a command that is not in the table is registered by
  \<open>StartService\<close> whenever the pipes can be made and the program starts.
\<close>

lemma StartService_registers:
  assumes "find (\<lambda>s. Svc_Name s = n) (MCP_Enabled (MCP (config m))) = Some svc"
    and "running m n = None" and "Svc_Command svc \<noteq> []"
    and "StdinPipe_err X = None" and "StdoutPipe_err X = None" and "StderrPipe_err X = None"
    and "cmd_Start X (Svc_Command svc # Svc_Args svc) = None"
  shows "fst (StartService X n m) = None \<and>
         map_option (\<lambda>q. (Proc_Name q, Cmd_Args (Proc_Cmd q), exited (Proc_Cmd q), ID q,
                             Stdin q, Stdout q, Stderr q))
           (running (snd (StartService X n m)) n) =
         Some (n, Svc_Command svc # Svc_Args svc, False, 1,
               new_pipe_in, new_pipe_out, new_pipe_out)"
  using assms by (simp add: StartService_def start_process_def Let_def)

text \<open>
  C5 as amended. A call of \<open>StartService\<close> that succeeds is followed by a second call on
  the same name that succeeds and changes nothing, so there is one process entry or one
  container. While the name of a configured service is in the table of running
  processes, \<open>StartService\<close> is a successful no-op, whatever has become of the child.
  A successful \<open>StopService\<close> takes the name out of the table, and a \<open>StartService\<close> on a
  name that is not in the table, if it registers a process, registers a fresh one:
  request counter 1, new pipes, a child that has not exited.
\<close>

theorem StartService_idempotent:
  "(StartService X n m = (None, m1) \<longrightarrow> StartService X n m1 = (None, m1)) \<and>
   (running m n = Some p \<and>
    find (\<lambda>s. Svc_Name s = n) (MCP_Enabled (MCP (config m))) = Some svc \<longrightarrow>
      StartService X n m = (None, m)) \<and>
   (StopService n m = (Returns None, m2) \<longrightarrow> running m2 n = None) \<and>
   (running m n = None \<and> StartService X n m = (r, m3) \<and> running m3 n = Some q \<longrightarrow>
      r = None \<and> ID q = 1 \<and> Stdin q = new_pipe_in \<and> Stdout q = new_pipe_out \<and>
      Stderr q = new_pipe_out \<and> \<not> exited (Proc_Cmd q))"
  using StartService_again [of X n m m1] StartService_registered [of m n p svc X]
    StopService_unregisters [of n m m2] StartService_fresh [of m n X r m3 q]
  by blast

theorem StartService_idempotent_witness:
  "StartService example_host ''probe'' local_manager = (None, started_manager) \<and>
   StartService example_host ''probe'' started_manager = (None, started_manager) \<and>
   running started_manager ''probe'' = Some probe_process \<and>
   StopService ''probe'' started_manager = (Returns None, local_manager) \<and>
   running local_manager ''probe'' = None \<and>
   ID probe_process = 1 \<and> \<not> exited (Proc_Cmd probe_process)"
proof -
  have first: "StartService example_host ''probe'' local_manager = (None, started_manager)"
    by (simp add: started_manager_running StartService_local_manager)
  have reg: "running started_manager ''probe'' = Some probe_process"
    by (simp add: started_manager_running)
  have cfg: "find (\<lambda>s. Svc_Name s = ''probe'') (MCP_Enabled (MCP (config started_manager))) =
               Some (probe_service ''probe-server'' [])"
    using local_manager_config by (simp add: started_manager_running)
  have stop: "StopService ''probe'' started_manager = (Returns None, local_manager)"
    by (rule StopService_started_manager)
  note at_local = StartService_idempotent
    [where X = example_host and n = "''probe''" and m = local_manager
       and ?m1.0 = started_manager and r = None and ?m3.0 = started_manager
       and q = probe_process]
  note at_started = StartService_idempotent
    [where X = example_host and n = "''probe''" and m = started_manager
       and p = probe_process and svc = "probe_service ''probe-server'' []"
       and ?m2.0 = local_manager]
  from at_local first
  have second: "StartService example_host ''probe'' started_manager = (None, started_manager)"
    by blast
  from at_started stop have gone: "running local_manager ''probe'' = None"
    by blast
  from at_local gone first reg
  have fresh: "ID probe_process = 1 \<and> \<not> exited (Proc_Cmd probe_process)"
    by blast
  from at_started reg cfg
  have "StartService example_host ''probe'' started_manager = (None, started_manager)"
    by blast
  with first reg stop gone fresh show ?thesis by blast
qed

text \<open>
  C5 as stated fails where the session has failed: after the child of the probe service
  has terminated on its own, \<open>StartService\<close> still returns success and leaves the table
  as it is, with the entry of the dead child; no fresh process is started.
\<close>

theorem StartService_idempotent_counterexample:
  "map_option (\<lambda>p. exited (Proc_Cmd p)) (running crashed_manager ''probe'') = Some True \<and>
   StartService example_host ''probe'' crashed_manager = (None, crashed_manager)"
  using local_manager_config
  by (simp add: crashed_manager_running StartService_def)

section \<open>Calling a tool of a service that is not running\<close>

text \<open>
  C6 as amended: after \<open>StopService\<close> has returned success for a service, \<open>CallTool\<close> on
  that service returns the not-running error at once: it does not wait, it writes no
  request, and it leaves the state, request counters included, as it is.
\<close>

theorem CallTool_after_StopService:
  "StopService n m = (Returns None, m1) \<Longrightarrow>
   CallTool X n toolName args m1 = (Returns (Inl (NotRunning n)), m1)"
  using StopService_unregisters [of n m m1]
  by (simp add: CallTool_def CallTool_send_def)

theorem CallTool_after_StopService_witness:
  "StopService ''probe'' started_manager = (Returns None, local_manager) \<and>
   CallTool example_host ''probe'' ''t1'' (IMap []) local_manager =
     (Returns (Inl (NotRunning ''probe'')), local_manager)"
  using StopService_started_manager
    CallTool_after_StopService [OF StopService_started_manager, of example_host "''t1''" "IMap []"]
  by simp

text \<open>
  What \<open>CallTool\<close> does once the child's output has ended while the service is still in
  the table: it takes a request id, marshals and writes the request, reads the end of the
  stream as zero bytes and hands them to the JSON decoder.
\<close>

lemma CallTool_at_end_of_stream:
  assumes "running m n = Some p" "avail (Stdout p) = []" "eof (Stdout p)"
    "\<not> closed (Stdin p)" "\<not> broken (Stdin p)"
    "json_Marshal X (toolsCallReq toolName args (ID p)) = Inr data"
  shows "CallTool X n toolName args m =
           (Returns (CallTool_decode X []),
            m\<lparr>running := (running m)(n \<mapsto>
                 p\<lparr>ID := ID p + 1,
                   Stdin := (Stdin p)\<lparr>written := written (Stdin p) @ [data @ ''\<newline>'']\<rparr>\<rparr>)\<rparr>)"
  using assms
  by (simp add: CallTool_def CallTool_send_def CallTool_recv_def Write_def Read_def Let_def)

lemma CallTool_consumes_id:
  "running m n = Some p \<Longrightarrow>
   map_option ID (running (snd (CallTool X n toolName args m)) n) = Some (ID p + 1)"
  by (auto simp: CallTool_def CallTool_send_def CallTool_recv_def Write_def Read_def Let_def
      split: sum.splits option.splits prod.splits outcome.splits if_splits)

text \<open>
  C6 as stated fails for a closed stream. The child of the probe service has terminated:
  its output has ended, and the service is still in the table with request counter 1.
  \<open>CallTool\<close> takes request id 1, moves the counter to 2, tries to write the request and
  returns the error of that write, not the not-running error.
\<close>

theorem CallTool_after_StopService_counterexample:
  "map_option (\<lambda>p. (eof (Stdout p), ID p)) (running crashed_manager ''probe'') =
     Some (True, 1) \<and>
   fst (CallTool example_host ''probe'' ''t1'' (IMap []) crashed_manager) =
     Returns (Inl (LibError ''broken pipe'')) \<and>
   map_option ID
     (running (snd (CallTool example_host ''probe'' ''t1'' (IMap []) crashed_manager))
        ''probe'') = Some 2"
  by (simp add: crashed_manager_running probe_process_def new_pipe_in_def new_pipe_out_def
      CallTool_def CallTool_send_def Write_def example_host_def Let_def)

section \<open>Requests and responses on the child's pipes\<close>

lemma can_marshal_fields:
  "json_Marshal (can_marshal enc X) v = Inr (enc v)"
  "json_Unmarshal (can_marshal enc X) = json_Unmarshal X"
  by (simp_all add: can_marshal_def can_spawn_def)

lemma probe_started_running:
  "probe_started (can_marshal enc X) = local_manager\<lparr>running := [''probe'' \<mapsto>
     \<lparr>Proc_Name = ''probe'',
      Proc_Cmd = \<lparr>Cmd_Args = [''probe-server''],
                  Cmd_Env = process_env (os_env X) probe_env,
                  Cmd_Setsid = True, exited = False,
                  exits_on_close = child_exits_on_close X [''probe-server'']\<rparr>,
      Stdin = new_pipe_in, Stdout = new_pipe_out, Stderr = new_pipe_out, ID = 1\<rparr>]\<rparr>"
  by (simp add: probe_started_def can_marshal_def can_spawn_def local_manager_def
      NewManager_def config_of_def probe_service_def StartService_def start_process_def
      Let_def)

lemma reply_sizes:
  "take 65536 reply_1 = reply_1" "drop 65536 reply_1 = []" "reply_1 \<noteq> []"
  "take 65536 reply_2 = reply_2" "drop 65536 reply_2 = []" "reply_2 \<noteq> []"
  "take 65536 reply_1_head = reply_1_head" "drop 65536 reply_1_head = []"
  "reply_1_head \<noteq> []"
  "take (65536 - length reply_1) reply_2 = reply_2"
  "drop (65536 - length reply_1) reply_2 = []"
  by (simp_all add: reply_1_def reply_2_def reply_1_head_def)

lemma reply_1_head_partial:
  "CHR 0x0A \<notin> set reply_1_head \<and> (\<exists>rest. rest \<noteq> [] \<and> reply_1 = reply_1_head @ rest)"
  by (simp add: reply_1_head_def reply_1_def)

text \<open>
  C3, evaluated. The probe service is started (request counter 1), \<open>initAndServe\<close>
  writes the initialize request with the literal id 1 and the notification and reads
  nothing, leaving the counter at 1; the first \<open>CallTool\<close> then writes a tools/call
  request whose id is 1 again, while the initialize request is still unanswered.
\<close>

theorem first_call_reuses_initialize_id:
  "map_option ID
     (running (initAndServe (can_marshal enc X) ''probe''
        (probe_started (can_marshal enc X))) ''probe'') = Some 1 \<and>
   map_option Stdout
     (running (initAndServe (can_marshal enc X) ''probe''
        (probe_started (can_marshal enc X))) ''probe'') = Some new_pipe_out \<and>
   map_option (\<lambda>p. written (Stdin p))
     (running (snd (CallTool_send (can_marshal enc X) ''probe'' ''t1'' args
        (initAndServe (can_marshal enc X) ''probe''
           (probe_started (can_marshal enc X))))) ''probe'') =
     Some [enc initReq @ ''\<newline>'', enc notifReq @ ''\<newline>'',
           enc (toolsCallReq ''t1'' args 1) @ ''\<newline>''] \<and>
   request_id initReq = IInt 1 \<and>
   request_id (toolsCallReq ''t1'' args 1) = IInt 1"
  by (simp add: probe_started_running initAndServe_def CallTool_send_def Write_def
      new_pipe_in_def marshal_data_def can_marshal_fields Let_def request_id_def lookup_def
      initReq_def toolsCallReq_def)

text \<open>The request counter of a registered process goes up by one with every call.\<close>

lemma CallTool_send_counts:
  "running m n = Some p \<Longrightarrow>
   map_option ID (running (snd (CallTool_send X n toolName args m)) n) = Some (ID p + 1)"
  by (auto simp: CallTool_send_def Write_def Let_def split: sum.splits)

text \<open>
  No event of a schedule registers, deletes or replaces a process: an event changes at
  most the pipes and the request counter of the entries that are there.
\<close>

lemma CallTool_send_keeps_entries:
  "map_option (\<lambda>p. (Proc_Name p, Proc_Cmd p, Stderr p))
     (running (snd (CallTool_send X n toolName args m)) k) =
   map_option (\<lambda>p. (Proc_Name p, Proc_Cmd p, Stderr p)) (running m k)"
  by (auto simp: CallTool_send_def Write_def Let_def split: option.splits sum.splits)

lemma CallTool_recv_keeps_entries:
  "map_option (\<lambda>p. (Proc_Name p, Proc_Cmd p, Stderr p))
     (running (snd (CallTool_recv X n m)) k) =
   map_option (\<lambda>p. (Proc_Name p, Proc_Cmd p, Stderr p)) (running m k)"
  by (auto simp: CallTool_recv_def Read_def Let_def split: option.splits)

lemma step_keeps_entries:
  assumes "step X n ev w = Some w'"
  shows "map_option (\<lambda>p. (Proc_Name p, Proc_Cmd p, Stderr p)) (running (W_manager w') k) =
         map_option (\<lambda>p. (Proc_Name p, Proc_Cmd p, Stderr p)) (running (W_manager w) k)"
proof (cases ev)
  case (Caller_sends caller toolName args)
  with assms CallTool_send_keeps_entries [of X n toolName args "W_manager w" k]
  show ?thesis by (auto split: prod.splits sent.splits)
next
  case (Caller_reads caller)
  with assms CallTool_recv_keeps_entries [of X n "W_manager w" k]
  show ?thesis by (auto split: prod.splits outcome.splits)
next
  case (Backend_writes bytes)
  with assms show ?thesis by (auto simp: backend_writes_def split: option.splits)
next
  case Backend_closes
  with assms show ?thesis by (auto simp: backend_closes_def split: option.splits)
qed

text \<open>
  C1, evaluated. Two callers A and B call a tool of the probe service side by side. A's
  request goes out with id 1, B's with id 2. The backend answers the second request
  first. A's read takes whatever is in the pipe, which is the answer with id 2; B's read
  later takes the answer with id 1. Each caller is handed the other's response.
\<close>

theorem concurrent_callers_swap_responses:
  "map_option W_results
     (run_schedule (can_marshal enc X) ''probe''
        [Caller_sends ''A'' ''t1'' argsA, Caller_sends ''B'' ''t1'' argsB,
         Backend_writes reply_2, Caller_reads ''A'',
         Backend_writes reply_1, Caller_reads ''B'']
        \<lparr>W_manager = probe_started (can_marshal enc X), W_results = []\<rparr>) =
     Some [(''A'', CallTool_decode (can_marshal enc X) reply_2),
           (''B'', CallTool_decode (can_marshal enc X) reply_1)] \<and>
   map_option (\<lambda>w. map_option (\<lambda>p. written (Stdin p)) (running (W_manager w) ''probe''))
     (run_schedule (can_marshal enc X) ''probe''
        [Caller_sends ''A'' ''t1'' argsA, Caller_sends ''B'' ''t1'' argsB]
        \<lparr>W_manager = probe_started (can_marshal enc X), W_results = []\<rparr>) =
     Some (Some [enc (toolsCallReq ''t1'' argsA 1) @ ''\<newline>'',
                 enc (toolsCallReq ''t1'' argsB 2) @ ''\<newline>''])"
  by (simp add: probe_started_running CallTool_send_def CallTool_recv_def Write_def Read_def
      new_pipe_in_def new_pipe_out_def backend_writes_def reply_sizes can_marshal_fields
      Let_def)

text \<open>
  The write half of the framing holds: a request that \<open>CallTool\<close> sends is one write of
  the marshalled document followed by a newline.
\<close>

lemma CallTool_send_writes_line:
  assumes "running m n = Some p" "CallTool_send X n toolName args m = (Sent, m1)"
  shows "\<exists>data p1. json_Marshal X (toolsCallReq toolName args (ID p)) = Inr data \<and>
           running m1 n = Some p1 \<and>
           written (Stdin p1) = written (Stdin p) @ [data @ ''\<newline>'']"
  using assms
  by (auto simp: CallTool_send_def Write_def Let_def split: sum.splits if_splits)

text \<open>
  The gateway of package mcp reads by lines: a read that returns without error returns
  exactly the bytes up to and including the first newline and leaves the rest queued,
  and while no newline has arrived on an open stream it waits.
\<close>

lemma ReadBytes_line:
  assumes "ReadBytes r = Returns ((data, None), r')"
  shows "\<exists>body. data = body @ ''\<newline>'' \<and> CHR 0x0A \<notin> set body \<and>
           avail r = data @ avail r'"
proof -
  let ?body = "takeWhile (\<lambda>c. c \<noteq> CHR 0x0A) (avail r)"
  let ?rest = "dropWhile (\<lambda>c. c \<noteq> CHR 0x0A) (avail r)"
  from assms have nl: "CHR 0x0A \<in> set (avail r)" and d: "data = ?body @ ''\<newline>''"
    and r': "avail r' = tl ?rest"
    by (auto simp: ReadBytes_def split: if_splits)
  from nl have "?rest \<noteq> []" by simp
  moreover have "?rest \<noteq> [] \<Longrightarrow> hd ?rest = CHR 0x0A"
    using hd_dropWhile [of "\<lambda>c. c \<noteq> CHR 0x0A" "avail r"] by simp
  ultimately have "?rest = CHR 0x0A # tl ?rest" by (cases ?rest) auto
  then have "avail r = ?body @ CHR 0x0A # tl ?rest"
    using takeWhile_dropWhile_id [of "\<lambda>c. c \<noteq> CHR 0x0A" "avail r"] by simp
  moreover have "CHR 0x0A \<notin> set ?body" by (auto dest: set_takeWhileD)
  ultimately show ?thesis using d r' by auto
qed

lemma ReadBytes_partial:
  "CHR 0x0A \<notin> set (avail r) \<Longrightarrow> \<not> eof r \<Longrightarrow> ReadBytes r = Blocks"
  by (simp add: ReadBytes_def)

text \<open>
  C2, evaluated on the manager. When the first part of a response line has arrived and
  the rest has not, the read half of \<open>CallTool\<close> hands that part, which has no newline
  in it, to the JSON decoder. When two response lines have arrived before the read, it
  hands both lines to the decoder as one input.
\<close>

theorem CallTool_reads_no_lines:
  "map_option W_results
     (run_schedule (can_marshal enc X) ''probe''
        [Caller_sends ''A'' ''t1'' args, Backend_writes reply_1_head, Caller_reads ''A'']
        \<lparr>W_manager = probe_started (can_marshal enc X), W_results = []\<rparr>) =
     Some [(''A'', CallTool_decode (can_marshal enc X) reply_1_head)] \<and>
   CHR 0x0A \<notin> set reply_1_head \<and>
   map_option W_results
     (run_schedule (can_marshal enc X) ''probe''
        [Caller_sends ''A'' ''t1'' args, Backend_writes reply_1, Backend_writes reply_2,
         Caller_reads ''A'']
        \<lparr>W_manager = probe_started (can_marshal enc X), W_results = []\<rparr>) =
     Some [(''A'', CallTool_decode (can_marshal enc X) (reply_1 @ reply_2))]"
  using reply_1_head_partial
  by (simp add: probe_started_running CallTool_send_def CallTool_recv_def Write_def Read_def
      new_pipe_in_def new_pipe_out_def backend_writes_def reply_sizes can_marshal_fields
      Let_def)

section \<open>A backend that never answers\<close>

text \<open>
  \<open>readResponse\<close> of package mcp, when the context is not already done on entry, waits
  for a line with no bound: neither the 30 second timer nor a later end of the context
  is looked at again.
\<close>

lemma readResponse_blocks:
  "\<not> mu_locked g \<Longrightarrow> processes g name = Some p \<Longrightarrow>
   CHR 0x0A \<notin> set (avail (GP_Stdout p)) \<Longrightarrow> \<not> eof (GP_Stdout p) \<Longrightarrow>
   readResponse None X name g = (Blocks, g)"
  by (simp add: readResponse_def ReadBytes_def)

text \<open>
  \<open>StartProcess\<close> of package mcp calls \<open>initialize\<close> while it holds the write lock, and
  the first thing \<open>initialize\<close> does is to take the read lock: starting a process that
  is not yet in the table never returns.
\<close>

lemma StartProcess_blocks:
  "\<not> mu_locked g \<Longrightarrow> processes g name = None \<Longrightarrow> StdinPipe_err X = None \<Longrightarrow>
   StdoutPipe_err X = None \<Longrightarrow> StderrPipe_err X = None \<Longrightarrow>
   (\<And>argv. cmd_Start X argv = None) \<Longrightarrow>
   fst (StartProcess ctx_done X name img args env g) = Blocks"
  by (simp add: StartProcess_def initialize_def sendRequest_def Let_def)

text \<open>
  C4, evaluated on the manager. \<open>CallTool\<close> on the probe service, whose backend writes
  nothing and does not close its output, writes the request and then stays in its read:
  it does not return, with a timeout error or otherwise. It takes no timeout from its
  caller and does not look at its context.
\<close>

theorem CallTool_never_times_out:
  "fst (CallTool (can_marshal enc X) ''probe'' ''t1'' args
          (probe_started (can_marshal enc X))) = Blocks \<and>
   map_option (\<lambda>p. (written (Stdin p), ID p))
     (running (snd (CallTool (can_marshal enc X) ''probe'' ''t1'' args
                      (probe_started (can_marshal enc X)))) ''probe'') =
     Some ([enc (toolsCallReq ''t1'' args 1) @ ''\<newline>''], 2)"
  by (simp add: probe_started_running CallTool_def CallTool_send_def CallTool_recv_def
      Write_def Read_def new_pipe_in_def new_pipe_out_def can_marshal_fields Let_def)

end
